theory Spec2Isabelle
  imports Main
begin

section \<open>Strings and numbers of the host language\<close>

text \<open>
  The program is TypeScript (\<^verbatim>\<open>src/index.tsx\<close>). A string of the program is a sequence
  of UTF-16 code units; a code unit is modelled by its numeric value. \<open>js\<close> turns a
  literal of the theory into such a string (all literals used are ASCII).
\<close>

type_synonym jsstring = "nat list"

abbreviation cu :: "char \<Rightarrow> nat" where
  "cu c \<equiv> of_char c"

definition js :: "string \<Rightarrow> jsstring" where
  "js s = map of_char s"

text \<open>
  A \<^verbatim>\<open>number\<close> is a double. Only integral values, the two infinities and NaN occur
  in the code modelled here (\<^verbatim>\<open>parseInt\<close> results, \<^verbatim>\<open>Date\<close> time values); \<open>-0\<close> is
  identified with \<open>0\<close>, which no comparison of the program distinguishes.
\<close>

datatype jsnum = NaN | Finite int | Infinity | NegInfinity

datatype js_error = InvalidCharacterError | TypeError | RangeError

text \<open>The relational operator \<^verbatim>\<open>a > b\<close>: false as soon as one side is NaN.\<close>

fun js_gt :: "jsnum \<Rightarrow> jsnum \<Rightarrow> bool" where
  "js_gt NaN _ = False"
| "js_gt _ NaN = False"
| "js_gt (Finite a) (Finite b) = (a > b)"
| "js_gt (Finite a) Infinity = False"
| "js_gt (Finite a) NegInfinity = True"
| "js_gt Infinity Infinity = False"
| "js_gt Infinity _ = True"
| "js_gt NegInfinity _ = False"

text \<open>
  Conversion of a mathematical integer to the nearest double (round to nearest, ties to
  even; overflow to infinity). Integers of magnitude up to \<open>2^53\<close> are exact.
\<close>

fun bit_length :: "nat \<Rightarrow> nat" where
  "bit_length n = (if n = 0 then 0 else Suc (bit_length (n div 2)))"

declare bit_length.simps [simp del]

definition to_double :: "int \<Rightarrow> jsnum" where
  "to_double n =
     (if \<bar>n\<bar> \<le> 9007199254740992 then Finite n
      else
        (let a = nat \<bar>n\<bar>;
             e = bit_length a - 53;
             q = a div 2 ^ e;
             r = a mod 2 ^ e;
             h = 2 ^ (e - 1);
             q' = (if r > h \<or> (r = h \<and> odd q) then q + 1 else q);
             v = q' * 2 ^ e
         in if v \<ge> 2 ^ 1024 then (if n < 0 then NegInfinity else Infinity)
            else Finite (if n < 0 then - int v else int v)))"

text \<open>
  \<^verbatim>\<open>Number::toString\<close>, as used by the template literal \<^verbatim>\<open>`${expiresAt}`\<close>. For an
  integral value of magnitude below \<open>10^21\<close> (every \<^verbatim>\<open>Date\<close> time value is one: at most
  \<open>8.64 * 10^15\<close>) the result is the decimal numeral. Larger magnitudes print
  in exponent notation in the host language; they do not occur as time values and the
  decimal numeral given for them here is not the host language's rendering.
\<close>

fun digits :: "nat \<Rightarrow> jsstring" where
  "digits n = (if n < 10 then [cu CHR ''0'' + n]
               else digits (n div 10) @ [cu CHR ''0'' + n mod 10])"

declare digits.simps [simp del]

fun number_to_string :: "jsnum \<Rightarrow> jsstring" where
  "number_to_string NaN = js ''NaN''"
| "number_to_string Infinity = js ''Infinity''"
| "number_to_string NegInfinity = js ''-Infinity''"
| "number_to_string (Finite n) =
     (if n < 0 then cu CHR ''-'' # digits (nat (- n)) else digits (nat n))"

text \<open>
  \<^verbatim>\<open>String.prototype.split\<close> with a one-character separator: the list of the fields
  between the separators, never empty (\<^verbatim>\<open>''.split(':')\<close> is \<^verbatim>\<open>['']\<close>).
\<close>

fun split :: "nat \<Rightarrow> jsstring \<Rightarrow> jsstring list" where
  "split sep [] = [[]]"
| "split sep (c # cs) =
     (if c = sep then [] # split sep cs
      else (case split sep cs of
              [] \<Rightarrow> [[c]]
            | p # ps \<Rightarrow> (c # p) # ps))"

text \<open>
  Array destructuring \<^verbatim>\<open>const [a, b, c] = parts\<close> reads the elements by index; an index
  past the end gives \<^verbatim>\<open>undefined\<close> (\<open>None\<close>), elements beyond the pattern are ignored.
\<close>

definition element :: "'a list \<Rightarrow> nat \<Rightarrow> 'a option" where
  "element xs i = (if i < length xs then Some (xs ! i) else None)"

text \<open>\<^verbatim>\<open>ToString\<close> of a value that is a string or \<^verbatim>\<open>undefined\<close>.\<close>

fun ToString :: "jsstring option \<Rightarrow> jsstring" where
  "ToString None = js ''undefined''"
| "ToString (Some s) = s"

subsection \<open>\<^verbatim>\<open>parseInt\<close>\<close>

text \<open>
  \<^verbatim>\<open>parseInt(string)\<close> of ECMAScript with no radix argument: leading white space is
  skipped, an optional sign is read, a prefix \<^verbatim>\<open>0x\<close>/\<^verbatim>\<open>0X\<close> selects radix 16 (else 10),
  the longest prefix of digits of the radix is the numeral; with no digit the result is
  NaN. Whatever follows the digits is ignored.
\<close>

definition is_js_whitespace :: "nat \<Rightarrow> bool" where
  "is_js_whitespace c \<longleftrightarrow>
     c \<in> {9, 10, 11, 12, 13, 32, 160, 5760, 8232, 8233, 8239, 8287, 12288, 65279}
     \<or> (8192 \<le> c \<and> c \<le> 8202)"

definition digit_value :: "nat \<Rightarrow> nat option" where
  "digit_value c =
     (if cu CHR ''0'' \<le> c \<and> c \<le> cu CHR ''9'' then Some (c - cu CHR ''0'')
      else if cu CHR ''a'' \<le> c \<and> c \<le> cu CHR ''z'' then Some (c - cu CHR ''a'' + 10)
      else if cu CHR ''A'' \<le> c \<and> c \<le> cu CHR ''Z'' then Some (c - cu CHR ''A'' + 10)
      else None)"

definition is_radix_digit :: "nat \<Rightarrow> nat \<Rightarrow> bool" where
  "is_radix_digit R c = (case digit_value c of None \<Rightarrow> False | Some v \<Rightarrow> v < R)"

definition radix_value :: "nat \<Rightarrow> jsstring \<Rightarrow> nat" where
  "radix_value R Z =
     foldl (\<lambda>acc c. acc * R + (case digit_value c of None \<Rightarrow> 0 | Some v \<Rightarrow> v)) 0 Z"

definition strip_sign :: "jsstring \<Rightarrow> int \<times> jsstring" where
  "strip_sign S =
     (case S of
        [] \<Rightarrow> (1, [])
      | c # rest \<Rightarrow>
          if c = cu CHR ''-'' then (- 1, rest)
          else if c = cu CHR ''+'' then (1, rest)
          else (1, S))"

definition strip_prefix :: "jsstring \<Rightarrow> nat \<times> jsstring" where
  "strip_prefix S =
     (case S of
        c # d # rest \<Rightarrow>
          if c = cu CHR ''0'' \<and> (d = cu CHR ''x'' \<or> d = cu CHR ''X'') then (16, rest)
          else (10, S)
      | _ \<Rightarrow> (10, S))"

definition parseInt :: "jsstring \<Rightarrow> jsnum" where
  "parseInt inputString =
     (let S = dropWhile is_js_whitespace inputString;
          (sign, S) = strip_sign S;
          (R, S) = strip_prefix S;
          Z = takeWhile (is_radix_digit R) S
      in if Z = [] then NaN else to_double (sign * int (radix_value R Z)))"

section \<open>Base64 of the platform: \<^verbatim>\<open>btoa\<close> and \<^verbatim>\<open>atob\<close>\<close>

text \<open>
  \<^verbatim>\<open>btoa\<close> and \<^verbatim>\<open>atob\<close> are functions of the platform (HTML standard). \<^verbatim>\<open>btoa\<close> throws
  \<^verbatim>\<open>InvalidCharacterError\<close> when a code unit exceeds \<open>0xFF\<close>, and otherwise encodes
  the code units as bytes, three bytes to four characters of the standard alphabet,
  padded with \<^verbatim>\<open>=\<close> to a multiple of four.
\<close>

definition b64_char :: "nat \<Rightarrow> nat" where
  "b64_char i =
     (if i < 26 then cu CHR ''A'' + i
      else if i < 52 then cu CHR ''a'' + (i - 26)
      else if i < 62 then cu CHR ''0'' + (i - 52)
      else if i = 62 then cu CHR ''+''
      else cu CHR ''/'')"

fun b64_sextets :: "nat list \<Rightarrow> nat list" where
  "b64_sextets (a # b # c # rest) =
     [a div 4, (a mod 4) * 16 + b div 16, (b mod 16) * 4 + c div 64, c mod 64]
       @ b64_sextets rest"
| "b64_sextets [a, b] = [a div 4, (a mod 4) * 16 + b div 16, (b mod 16) * 4]"
| "b64_sextets [a] = [a div 4, (a mod 4) * 16]"
| "b64_sextets [] = []"

definition b64_padding :: "nat list \<Rightarrow> jsstring" where
  "b64_padding bytes = replicate ((3 - length bytes mod 3) mod 3) (cu CHR ''='')"

definition base64_encode :: "nat list \<Rightarrow> jsstring" where
  "base64_encode bytes = map b64_char (b64_sextets bytes) @ b64_padding bytes"

definition btoa :: "jsstring \<Rightarrow> js_error + jsstring" where
  "btoa s = (if list_all (\<lambda>c. c \<le> 255) s then Inr (base64_encode s)
             else Inl InvalidCharacterError)"

text \<open>
  \<^verbatim>\<open>atob\<close> is the forgiving base64 decoding: ASCII white space is removed; if the length
  is then a multiple of four, one or two trailing \<^verbatim>\<open>=\<close> are removed; a length that
  leaves remainder one, or a character outside the standard alphabet, is a failure
  (\<^verbatim>\<open>InvalidCharacterError\<close>); otherwise every four characters give three bytes, and two
  or three remaining characters give one or two bytes.
\<close>

definition is_ascii_whitespace :: "nat \<Rightarrow> bool" where
  "is_ascii_whitespace c \<longleftrightarrow> c = 9 \<or> c = 10 \<or> c = 12 \<or> c = 13 \<or> c = 32"

definition b64_index :: "nat \<Rightarrow> nat option" where
  "b64_index c =
     (if cu CHR ''A'' \<le> c \<and> c \<le> cu CHR ''Z'' then Some (c - cu CHR ''A'')
      else if cu CHR ''a'' \<le> c \<and> c \<le> cu CHR ''z'' then Some (c - cu CHR ''a'' + 26)
      else if cu CHR ''0'' \<le> c \<and> c \<le> cu CHR ''9'' then Some (c - cu CHR ''0'' + 52)
      else if c = cu CHR ''+'' then Some 62
      else if c = cu CHR ''/'' then Some 63
      else None)"

fun indices :: "jsstring \<Rightarrow> nat list option" where
  "indices [] = Some []"
| "indices (c # cs) =
     (case b64_index c of
        None \<Rightarrow> None
      | Some i \<Rightarrow> (case indices cs of None \<Rightarrow> None | Some is \<Rightarrow> Some (i # is)))"

fun b64_bytes :: "nat list \<Rightarrow> nat list" where
  "b64_bytes (p # q # r # s # rest) =
     [p * 4 + q div 16, (q mod 16) * 16 + r div 4, (r mod 4) * 64 + s] @ b64_bytes rest"
| "b64_bytes [p, q, r] = [p * 4 + q div 16, (q mod 16) * 16 + r div 4]"
| "b64_bytes [p, q] = [p * 4 + q div 16]"
| "b64_bytes [p] = []"
| "b64_bytes [] = []"

definition strip_eq :: "jsstring \<Rightarrow> jsstring" where
  "strip_eq s = (if s \<noteq> [] \<and> last s = cu CHR ''='' then butlast s else s)"

definition atob :: "jsstring \<Rightarrow> js_error + jsstring" where
  "atob input =
     (let data = filter (\<lambda>c. \<not> is_ascii_whitespace c) input;
          data = (if length data mod 4 = 0 then strip_eq (strip_eq data) else data)
      in if length data mod 4 = 1 then Inl InvalidCharacterError
         else (case indices data of
                 None \<Rightarrow> Inl InvalidCharacterError
               | Some sextets \<Rightarrow> Inr (b64_bytes sextets)))"

section \<open>The token functions\<close>

text \<open>
  \<^verbatim>\<open>generateTempToken\<close> (index.tsx, 1989-1995). The callback of
  \<^verbatim>\<open>replace(/[+/=]/g, ...)\<close> looks the match up in \<^verbatim>\<open>{'+': '-', '/': '_', '=': ''}\<close> and
  gives \<^verbatim>\<open>''\<close> when the entry is falsy.
\<close>

definition replacement :: "nat \<Rightarrow> jsstring" where
  "replacement match =
     (if match = cu CHR ''+'' then js ''-''
      else if match = cu CHR ''/'' then js ''_''
      else js '''')"

definition replace_plus_slash_eq :: "jsstring \<Rightarrow> jsstring" where
  "replace_plus_slash_eq s =
     concat (map (\<lambda>c. if c = cu CHR ''+'' \<or> c = cu CHR ''/'' \<or> c = cu CHR ''=''
                       then replacement c else [c]) s)"

definition token_data_string :: "jsstring \<Rightarrow> jsstring \<Rightarrow> jsnum \<Rightarrow> jsstring" where
  "token_data_string fileId userIP expiresAt =
     fileId @ js '':'' @ userIP @ js '':'' @ number_to_string expiresAt"

definition generateTempToken :: "jsstring \<Rightarrow> jsstring \<Rightarrow> jsnum \<Rightarrow> js_error + jsstring" where
  "generateTempToken fileId userIP expiresAt =
     (let data = token_data_string fileId userIP expiresAt
      in case btoa data of
           Inl err \<Rightarrow> Inl err
         | Inr b \<Rightarrow> Inr (replace_plus_slash_eq b))"

text \<open>
  \<^verbatim>\<open>verifyTempToken\<close> (index.tsx, 1997-2023). Its first five statements, the decoding,
  are \<open>decode_token\<close>: the padding, the two \<^verbatim>\<open>replace\<close> calls, \<^verbatim>\<open>atob\<close>, the \<^verbatim>\<open>split\<close>
  with the destructuring into three variables, and \<^verbatim>\<open>parseInt\<close>. \<open>now\<close> is the value of
  \<^verbatim>\<open>Date.now()\<close>. The array of \<^verbatim>\<open>split\<close> is never empty (lemma \<open>split_not_Nil\<close>), so its
  first element exists. The comparison of the embedded address with the caller's has an
  empty body in the source (its \<^verbatim>\<open>return null\<close> is commented out). An exception in the
  \<^verbatim>\<open>try\<close> block is caught and gives \<^verbatim>\<open>null\<close>.
\<close>

record token_data =
  file_id :: jsstring
  expires_at :: jsnum

definition replace_all :: "nat \<Rightarrow> nat \<Rightarrow> jsstring \<Rightarrow> jsstring" where
  "replace_all a b s = map (\<lambda>c. if c = a then b else c) s"

definition decode_token ::
  "jsstring \<Rightarrow> js_error + (jsstring \<times> jsstring option \<times> jsnum)" where
  "decode_token token =
     (let padding = replicate ((4 - length token mod 4) mod 4) (cu CHR ''='');
          base64 = replace_all (cu CHR ''_'') (cu CHR ''/'')
                     (replace_all (cu CHR ''-'') (cu CHR ''+'') token) @ padding
      in case atob base64 of
           Inl err \<Rightarrow> Inl err
         | Inr data \<Rightarrow>
             (let parts = split (cu CHR '':'') data;
                  fileId = hd parts;
                  tokenIP = element parts 1;
                  expiresAt = element parts 2;
                  expires = parseInt (ToString expiresAt)
              in Inr (fileId, tokenIP, expires)))"

definition verifyTempToken :: "int \<Rightarrow> jsstring \<Rightarrow> jsstring \<Rightarrow> token_data option" where
  "verifyTempToken now token userIP =
     (case decode_token token of
        Inl err \<Rightarrow> None
      | Inr (fileId, tokenIP, expires) \<Rightarrow>
          if js_gt (Finite now) expires then None
          else
            (let u = (if tokenIP \<noteq> Some userIP then () else ())
             in Some \<lparr>file_id = fileId, expires_at = expires\<rparr>))"

section \<open>The two request handlers\<close>

text \<open>
  The handlers talk to the database, to the upstream file host and to the clock. What
  these collaborators answer is a parameter of the model (\<open>env\<close>); a call that throws
  or whose promise rejects is \<open>Throws\<close>. Every call made to a collaborator is
  recorded, in order, in the list of effects the model of a handler returns.
\<close>

datatype 'a outcome = Throws | Returns 'a

record movie =
  movie_id :: int

record file_result =
  file_path :: jsstring
  file_size :: "nat option"

record file_data =
  ok :: bool
  result :: "file_result option"

text \<open>
  A \<^verbatim>\<open>Response\<close> of \<^verbatim>\<open>fetch\<close>: its status, \<^verbatim>\<open>headers.get\<close> (\<^verbatim>\<open>null\<close> is \<open>None\<close>), what
  \<^verbatim>\<open>json()\<close> resolves to, and its body (\<^verbatim>\<open>null\<close> is \<open>None\<close>). \<^verbatim>\<open>Response.ok\<close> is a status
  from 200 to 299.
\<close>

record fetch_response =
  resp_status :: nat
  resp_header :: "jsstring \<Rightarrow> jsstring option"
  resp_json :: "file_data outcome"
  resp_body :: "nat list option"

definition resp_ok :: "fetch_response \<Rightarrow> bool" where
  "resp_ok r \<longleftrightarrow> 200 \<le> resp_status r \<and> resp_status r \<le> 299"

record analytics_row =
  event_type :: jsstring
  page_url :: jsstring
  row_movie_id :: int
  user_ip :: jsstring
  user_agent :: "jsstring option"

text \<open>
  \<open>db_first slug\<close> is the row of
  \<^verbatim>\<open>SELECT * FROM movies WHERE slug = ? AND published = TRUE\<close>, \<open>db_run row\<close> the
  \<^verbatim>\<open>INSERT INTO analytics\<close>, \<open>fetch url\<close> the request to the upstream host and
  \<open>date_now\<close> the value of \<^verbatim>\<open>Date.now()\<close>, a time value.
\<close>

record env =
  TELEGRAM_BOT_TOKEN :: "jsstring option"
  db_first :: "jsstring \<Rightarrow> movie option outcome"
  db_run :: "analytics_row \<Rightarrow> unit outcome"
  fetch :: "jsstring \<Rightarrow> fetch_response outcome"
  date_now :: int

datatype effect = Query jsstring | Fetch jsstring | Insert analytics_row

text \<open>
  The request: \<^verbatim>\<open>c.req.json()\<close> resolved to a body with the two string fields
  \<^verbatim>\<open>file_id\<close> and \<^verbatim>\<open>movie_slug\<close>, in this order (or rejected), \<^verbatim>\<open>c.req.header\<close> (\<^verbatim>\<open>undefined\<close> is \<open>None\<close>)
  and the path parameter \<^verbatim>\<open>token\<close>.
\<close>

record request =
  json_body :: "(jsstring \<times> jsstring) outcome"
  header :: "jsstring \<Rightarrow> jsstring option"
  param_token :: jsstring

text \<open>
  The responses: \<^verbatim>\<open>c.json({success: false, error}, status)\<close>, the success body of the
  issuing handler (status 200), and the relayed stream. \<open>resp_expires_at\<close> is the time
  value whose \<^verbatim>\<open>toISOString()\<close> rendering the body carries.
\<close>

record video_json =
  video_url :: jsstring
  direct_url :: jsstring
  resp_expires_at :: int
  resp_file_size :: "nat option"

datatype response =
    Json_error nat jsstring
  | Json_video video_json
  | Stream nat "(jsstring \<times> jsstring) list" "nat list option"

text \<open>\<^verbatim>\<open>a || b\<close> on a string or \<^verbatim>\<open>undefined\<close>/\<^verbatim>\<open>null\<close>: the empty string is falsy too.\<close>

definition or_else :: "jsstring option \<Rightarrow> jsstring \<Rightarrow> jsstring" where
  "or_else a b = (case a of None \<Rightarrow> b | Some s \<Rightarrow> if s = [] then b else s)"

definition userIP_of :: "request \<Rightarrow> jsstring" where
  "userIP_of req =
     or_else (header req (js ''CF-Connecting-IP''))
       (or_else (header req (js ''X-Forwarded-For'')) (js ''unknown''))"

text \<open>
  \<^verbatim>\<open>new Date(v)\<close> clips the time value: beyond \<open>8.64 * 10^15\<close> the date is invalid, its
  \<^verbatim>\<open>getTime()\<close> is NaN and its \<^verbatim>\<open>toISOString()\<close> throws \<^verbatim>\<open>RangeError\<close>.
\<close>

definition Date_new :: "int \<Rightarrow> jsnum" where
  "Date_new v = (if \<bar>v\<bar> \<le> 8640000000000000 then Finite v else NaN)"

fun toISOString :: "jsnum \<Rightarrow> js_error + int" where
  "toISOString (Finite t) = Inr t"
| "toISOString _ = Inl RangeError"

text \<open>
  \<^verbatim>\<open>app.post('/api/telegram/get-file-url')\<close> (index.tsx, 1780-1831). \<open>get_file_url_try\<close>
  is the \<^verbatim>\<open>try\<close> block, \<open>get_file_url\<close> the handler: the body is read before the
  \<^verbatim>\<open>try\<close>, so its rejection escapes; whatever the block throws becomes the 500 answer.
\<close>

definition get_file_url_try ::
  "env \<Rightarrow> request \<Rightarrow> jsstring \<Rightarrow> jsstring \<Rightarrow> jsstring \<Rightarrow> response outcome \<times> effect list" where
  "get_file_url_try e req req_file_id req_movie_slug userIP =
     (case TELEGRAM_BOT_TOKEN e of
        None \<Rightarrow> (Returns (Json_error 500 (js ''Telegram bot not configured'')), [])
      | Some botToken \<Rightarrow>
          if botToken = [] then (Returns (Json_error 500 (js ''Telegram bot not configured'')), [])
          else
            (case db_first e req_movie_slug of
               Throws \<Rightarrow> (Throws, [Query req_movie_slug])
             | Returns None \<Rightarrow> (Returns (Json_error 404 (js ''Movie not found'')), [Query req_movie_slug])
             | Returns (Some movie) \<Rightarrow>
                 (let url = js ''https://api.telegram.org/bot'' @ botToken
                              @ js ''/getFile?file_id='' @ req_file_id;
                      calls = [Query req_movie_slug, Fetch url]
                  in case fetch e url of
                       Throws \<Rightarrow> (Throws, calls)
                     | Returns fileResponse \<Rightarrow>
                         (case resp_json fileResponse of
                            Throws \<Rightarrow> (Throws, calls)
                          | Returns fileData \<Rightarrow>
                              if \<not> ok fileData
                              then (Returns (Json_error 400 (js ''Invalid file ID'')), calls)
                              else
                                (case result fileData of
                                   None \<Rightarrow> (Throws, calls)
                                 | Some res \<Rightarrow>
                                     (let filePath = file_path res;
                                          directUrl = js ''https://api.telegram.org/file/bot''
                                                        @ botToken @ js ''/'' @ filePath;
                                          expiresAt = Date_new (date_now e + 3600000)
                                      in case generateTempToken req_file_id userIP expiresAt of
                                           Inl err \<Rightarrow> (Throws, calls)
                                         | Inr tempToken \<Rightarrow>
                                             (let row = \<lparr>event_type = js ''video_access_request'',
                                                         page_url = js ''/watch/'' @ req_movie_slug,
                                                         row_movie_id = movie_id movie,
                                                         user_ip = userIP,
                                                         user_agent = header req (js ''User-Agent'')\<rparr>
                                              in case db_run e row of
                                                   Throws \<Rightarrow> (Throws, calls @ [Insert row])
                                                 | Returns u \<Rightarrow>
                                                     (case toISOString expiresAt of
                                                        Inl err \<Rightarrow> (Throws, calls @ [Insert row])
                                                      | Inr isoTime \<Rightarrow>
                                                          (Returns (Json_video
                                                             \<lparr>video_url = js ''/api/telegram/stream/'' @ tempToken,
                                                              direct_url = directUrl,
                                                              resp_expires_at = isoTime,
                                                              resp_file_size = file_size res\<rparr>),
                                                           calls @ [Insert row])))))))))"

definition get_file_url :: "env \<Rightarrow> request \<Rightarrow> response outcome \<times> effect list" where
  "get_file_url e req =
     (case json_body req of
        Throws \<Rightarrow> (Throws, [])
      | Returns (req_file_id, req_movie_slug) \<Rightarrow>
          (case get_file_url_try e req req_file_id req_movie_slug (userIP_of req) of
             (Throws, effects) \<Rightarrow>
               (Returns (Json_error 500 (js ''Failed to get video URL'')), effects)
           | (Returns r, effects) \<Rightarrow> (Returns r, effects)))"

text \<open>
  \<^verbatim>\<open>app.get('/api/telegram/stream/:token')\<close> (index.tsx, 1833-1883). \<open>stream_try\<close> is
  the \<^verbatim>\<open>try\<close> block and \<open>stream_handler\<close> the handler. \<^verbatim>\<open>new Response\<close> throws when a
  body is given with a status that allows none (204 and 205 among the \<^verbatim>\<open>ok\<close> statuses).
\<close>

definition relay_headers :: "fetch_response \<Rightarrow> (jsstring \<times> jsstring) list" where
  "relay_headers videoResponse =
     [(js ''Content-Type'',
         or_else (resp_header videoResponse (js ''Content-Type'')) (js ''video/mp4'')),
      (js ''Content-Length'',
         or_else (resp_header videoResponse (js ''Content-Length'')) (js ''0'')),
      (js ''Accept-Ranges'', js ''bytes''),
      (js ''Cache-Control'', js ''no-cache, no-store, must-revalidate''),
      (js ''X-Content-Type-Options'', js ''nosniff'')]"

definition stream_try ::
  "env \<Rightarrow> jsstring \<Rightarrow> jsstring \<Rightarrow> response outcome \<times> effect list" where
  "stream_try e token userIP =
     (case verifyTempToken (date_now e) token userIP of
        None \<Rightarrow> (Returns (Json_error 401 (js ''Invalid or expired token'')), [])
      | Some tokenData \<Rightarrow>
          (case TELEGRAM_BOT_TOKEN e of
             None \<Rightarrow> (Returns (Json_error 503 (js ''Service unavailable'')), [])
           | Some botToken \<Rightarrow>
               if botToken = [] then (Returns (Json_error 503 (js ''Service unavailable'')), [])
               else
                 (let url = js ''https://api.telegram.org/bot'' @ botToken
                              @ js ''/getFile?file_id='' @ file_id tokenData
                  in case fetch e url of
                       Throws \<Rightarrow> (Throws, [Fetch url])
                     | Returns fileResponse \<Rightarrow>
                         (case resp_json fileResponse of
                            Throws \<Rightarrow> (Throws, [Fetch url])
                          | Returns fileData \<Rightarrow>
                              if \<not> ok fileData
                              then (Returns (Json_error 404 (js ''Video no longer available'')),
                                    [Fetch url])
                              else
                                (case result fileData of
                                   None \<Rightarrow> (Throws, [Fetch url])
                                 | Some res \<Rightarrow>
                                     (let filePath = file_path res;
                                          videoUrl = js ''https://api.telegram.org/file/bot''
                                                       @ botToken @ js ''/'' @ filePath;
                                          calls = [Fetch url, Fetch videoUrl]
                                      in case fetch e videoUrl of
                                           Throws \<Rightarrow> (Throws, calls)
                                         | Returns videoResponse \<Rightarrow>
                                             if \<not> resp_ok videoResponse
                                             then (Returns (Json_error 404
                                                     (js ''Video stream unavailable'')), calls)
                                             else if resp_body videoResponse \<noteq> None
                                                     \<and> (resp_status videoResponse = 204
                                                          \<or> resp_status videoResponse = 205)
                                             then (Throws, calls)
                                             else (Returns (Stream (resp_status videoResponse)
                                                              (relay_headers videoResponse)
                                                              (resp_body videoResponse)),
                                                   calls)))))))"

definition stream_handler :: "env \<Rightarrow> request \<Rightarrow> response outcome \<times> effect list" where
  "stream_handler e req =
     (case stream_try e (param_token req) (userIP_of req) of
        (Throws, effects) \<Rightarrow> (Returns (Json_error 500 (js ''Stream error'')), effects)
      | (Returns r, effects) \<Rightarrow> (Returns r, effects))"

text \<open>
  \<^verbatim>\<open>app.use('/api/*', cors({origin: '*', ...}))\<close> (index.tsx, 13-17): the middleware of
  \<^verbatim>\<open>hono/cors\<close> runs around every handler under \<^verbatim>\<open>/api/\<close>. For a request other than
  \<^verbatim>\<open>OPTIONS\<close> it sets \<^verbatim>\<open>Access-Control-Allow-Origin\<close> to the configured origin, here
  \<^verbatim>\<open>*\<close>, on the response the handler returns; its \<^verbatim>\<open>allowHeaders\<close> and \<^verbatim>\<open>allowMethods\<close>
  options concern the answer to a preflight \<^verbatim>\<open>OPTIONS\<close> request only. It calls no
  collaborator. \<^verbatim>\<open>Headers.set\<close> replaces a header of the same name and adds the header
  otherwise; the order of the list has no meaning. The JSON answers are modelled by
  status and body only, so the middleware leaves their model as it is. \<open>stream\<close> is
  what a \<^verbatim>\<open>GET\<close> request to the route is answered with: the handler inside the
  middleware.
\<close>

definition headers_set ::
  "jsstring \<Rightarrow> jsstring \<Rightarrow> (jsstring \<times> jsstring) list \<Rightarrow> (jsstring \<times> jsstring) list" where
  "headers_set name v hs = filter (\<lambda>h. fst h \<noteq> name) hs @ [(name, v)]"

fun cors :: "response \<Rightarrow> response" where
  "cors (Stream status headers body) =
     Stream status (headers_set (js ''Access-Control-Allow-Origin'') (js ''*'') headers) body"
| "cors (Json_error status message) = Json_error status message"
| "cors (Json_video v) = Json_video v"

definition stream :: "env \<Rightarrow> request \<Rightarrow> response outcome \<times> effect list" where
  "stream e req =
     (case stream_handler e req of
        (Throws, effects) \<Rightarrow> (Throws, effects)
      | (Returns r, effects) \<Rightarrow> (Returns (cors r), effects))"

section \<open>The encoding as the specification words it\<close>

text \<open>
  The specification's description of the encoding: join the fields with \<^verbatim>\<open>:\<close>, encode
  the joined string with the standard base64 alphabet, then remap to the URL-safe form
  (\<^verbatim>\<open>+\<close> to \<^verbatim>\<open>-\<close>, \<^verbatim>\<open>/\<close> to \<^verbatim>\<open>_\<close>, strip the \<^verbatim>\<open>=\<close> padding).
\<close>

fun spec_join :: "jsstring list \<Rightarrow> jsstring" where
  "spec_join [] = []"
| "spec_join [x] = x"
| "spec_join (x # y # ys) = x @ cu CHR '':'' # spec_join (y # ys)"

definition spec_url_safe :: "nat \<Rightarrow> nat" where
  "spec_url_safe c = (if c = cu CHR ''+'' then cu CHR ''-''
                      else if c = cu CHR ''/'' then cu CHR ''_'' else c)"

definition spec_strip_padding :: "jsstring \<Rightarrow> jsstring" where
  "spec_strip_padding s = rev (dropWhile (\<lambda>c. c = cu CHR ''='') (rev s))"

definition spec_encode :: "jsstring \<Rightarrow> jsstring \<Rightarrow> jsnum \<Rightarrow> jsstring" where
  "spec_encode fileId userIP expiresAt =
     spec_strip_padding (map spec_url_safe
       (base64_encode (spec_join [fileId, userIP, number_to_string expiresAt])))"

section \<open>A scenario\<close>

text \<open>
  The scenario used for the concrete instances below: the published resource
  \<^verbatim>\<open>movie-x\<close> with the upstream file id \<^verbatim>\<open>FILE123\<close>. The data store finds the resource,
  the upstream host resolves the file and serves it with status 200 and without
  \<^verbatim>\<open>Content-Type\<close> or \<^verbatim>\<open>Content-Length\<close> headers. The request carries the caller's
  address in \<^verbatim>\<open>CF-Connecting-IP\<close> and a \<^verbatim>\<open>User-Agent\<close>. In \<open>scenario_env_insert_fails\<close> the analytics
  \<^verbatim>\<open>INSERT\<close> throws; everything else is as in \<open>scenario_env\<close>.
\<close>

definition scenario_no_header :: "jsstring \<Rightarrow> jsstring option" where
  "scenario_no_header name = None"

definition scenario_upstream :: fetch_response where
  "scenario_upstream =
     \<lparr>resp_status = 200,
      resp_header = scenario_no_header,
      resp_json = Returns \<lparr>ok = True,
                           result = Some \<lparr>file_path = js ''videos/file_7.mp4'',
                                          file_size = Some 1048576\<rparr>\<rparr>,
      resp_body = Some [0, 1, 2]\<rparr>"

definition scenario_db_first :: "jsstring \<Rightarrow> movie option outcome" where
  "scenario_db_first slug = Returns (Some \<lparr>movie_id = 7\<rparr>)"

definition scenario_db_run :: "analytics_row \<Rightarrow> unit outcome" where
  "scenario_db_run row = Returns ()"

definition scenario_db_run_fails :: "analytics_row \<Rightarrow> unit outcome" where
  "scenario_db_run_fails row = Throws"

definition scenario_fetch :: "jsstring \<Rightarrow> fetch_response outcome" where
  "scenario_fetch url = Returns scenario_upstream"

definition scenario_env :: "int \<Rightarrow> env" where
  "scenario_env now =
     \<lparr>TELEGRAM_BOT_TOKEN = Some (js ''123:SECRET''),
      db_first = scenario_db_first,
      db_run = scenario_db_run,
      fetch = scenario_fetch,
      date_now = now\<rparr>"

definition scenario_env_insert_fails :: "int \<Rightarrow> env" where
  "scenario_env_insert_fails now =
     \<lparr>TELEGRAM_BOT_TOKEN = Some (js ''123:SECRET''),
      db_first = scenario_db_first,
      db_run = scenario_db_run_fails,
      fetch = scenario_fetch,
      date_now = now\<rparr>"

definition scenario_header :: "jsstring \<Rightarrow> jsstring \<Rightarrow> jsstring option" where
  "scenario_header ip name =
     (if name = js ''CF-Connecting-IP'' then Some ip
      else if name = js ''User-Agent'' then Some (js ''Mozilla/5.0'')
      else None)"

definition scenario_request :: "jsstring \<Rightarrow> jsstring \<Rightarrow> request" where
  "scenario_request ip token =
     \<lparr>json_body = Returns (js ''FILE123'', js ''movie-x''),
      header = scenario_header ip,
      param_token = token\<rparr>"

section \<open>Base64: decoding inverts encoding\<close>

lemma b64_index_char:
  assumes "i < 64"
  shows "b64_index (b64_char i) = Some i"
proof -
  from assms consider "i < 26" | "26 \<le> i \<and> i < 52" | "52 \<le> i \<and> i < 62" | "i = 62" | "i = 63"
    by linarith
  then show ?thesis
  proof cases
    case 1
    then show ?thesis by (simp add: b64_index_def b64_char_def)
  next
    case 2
    then have c: "b64_char i = i + 71" by (simp add: b64_char_def)
    from 2 show ?thesis unfolding c by (simp add: b64_index_def)
  next
    case 3
    then have c: "b64_char i = i - 4" by (simp add: b64_char_def)
    from 3 have "48 \<le> i - 4" "i - 4 \<le> 57" "i - 4 - 48 + 52 = i" by arith+
    then show ?thesis unfolding c by (simp add: b64_index_def)
  next
    case 4
    then show ?thesis by (simp add: b64_index_def b64_char_def)
  next
    case 5
    then show ?thesis by (simp add: b64_index_def b64_char_def)
  qed
qed

lemma b64_char_not_special:
  "b64_char i \<noteq> 61" "b64_char i \<noteq> 45" "b64_char i \<noteq> 95" "b64_char i \<noteq> 58"
  "\<not> is_ascii_whitespace (b64_char i)" "b64_char i \<le> 255"
  by (auto simp: b64_char_def is_ascii_whitespace_def)

lemma b64_sextets_bound:
  "list_all (\<lambda>c. c \<le> 255) bytes \<Longrightarrow> list_all (\<lambda>i. i < 64) (b64_sextets bytes)"
  by (induction bytes rule: b64_sextets.induct) (simp_all, arith+)

lemma indices_map_char:
  "list_all (\<lambda>i. i < 64) xs \<Longrightarrow> indices (map b64_char xs) = Some xs"
  by (induction xs) (simp_all add: b64_index_char)

lemma sextet_byte1: "b \<le> 255 \<Longrightarrow> (a div 4) * 4 + ((a mod 4) * 16 + b div 16) div 16 = (a::nat)"
proof -
  assume "b \<le> 255"
  then have "b div 16 div 16 = 0" by simp
  then have "((a mod 4) * 16 + b div 16) div 16 = a mod 4" by simp
  then show ?thesis by simp
qed

lemma sextet_byte2:
  "b \<le> 255 \<Longrightarrow> c \<le> 255 \<Longrightarrow>
   (((a mod 4) * 16 + b div 16) mod 16) * 16 + ((b mod 16) * 4 + c div 64) div 4 = (b::nat)"
proof -
  assume "b \<le> 255" "c \<le> 255"
  then have "b div 16 < 16" "c div 64 div 4 = 0" by simp_all
  then have "((a mod 4) * 16 + b div 16) mod 16 = b div 16"
    "((b mod 16) * 4 + c div 64) div 4 = b mod 16" by simp_all
  then show ?thesis by simp
qed

lemma sextet_byte3:
  "c \<le> 255 \<Longrightarrow> (((b mod 16) * 4 + c div 64) mod 4) * 64 + c mod 64 = (c::nat)"
proof -
  assume "c \<le> 255"
  then have "c div 64 < 4" by simp
  then have "((b mod 16) * 4 + c div 64) mod 4 = c div 64" by simp
  then show ?thesis by simp
qed

lemma sextet_byte2_last:
  "b \<le> 255 \<Longrightarrow>
   (((a mod 4) * 16 + b div 16) mod 16) * 16 + ((b mod 16) * 4) div 4 = (b::nat)"
proof -
  assume "b \<le> 255"
  then have "b div 16 < 16" by simp
  then have "((a mod 4) * 16 + b div 16) mod 16 = b div 16" by simp
  then show ?thesis by simp
qed

lemma sextet_byte1_last: "(a div 4) * 4 + ((a mod 4) * 16) div 16 = (a::nat)"
  by simp

lemma b64_bytes_sextets:
  "list_all (\<lambda>c. c \<le> 255) bytes \<Longrightarrow> b64_bytes (b64_sextets bytes) = bytes"
proof (induction bytes rule: b64_sextets.induct)
  case (1 a b c rest)
  then have "a \<le> 255" "b \<le> 255" "c \<le> 255" "b64_bytes (b64_sextets rest) = rest"
    by simp_all
  then show ?case
    by (simp only: b64_sextets.simps b64_bytes.simps append.simps
          sextet_byte1 sextet_byte2 sextet_byte3)
next
  case (2 a b)
  then have "b \<le> 255" by simp
  then show ?case
    by (simp only: b64_sextets.simps b64_bytes.simps sextet_byte1 sextet_byte2_last)
next
  case (3 a)
  show ?case
    by (simp only: b64_sextets.simps b64_bytes.simps sextet_byte1_last)
next
  case 4
  show ?case by simp
qed

lemma length_b64_sextets:
  "length (b64_sextets bytes) mod 4 =
     (if length bytes mod 3 = 0 then 0 else length bytes mod 3 + 1)"
  by (induction bytes rule: b64_sextets.induct) simp_all

lemma length_base64_encode: "length (base64_encode bytes) mod 4 = 0"
proof -
  define L where "L = length (b64_sextets bytes)"
  define m where "m = length bytes mod 3"
  have m: "m = 0 \<or> m = 1 \<or> m = 2" unfolding m_def by arith
  have L: "L mod 4 = (if m = 0 then 0 else m + 1)"
    unfolding L_def m_def by (rule length_b64_sextets)
  have "(L + (3 - m) mod 3) mod 4 = 0"
    using m L by (elim disjE) (simp_all, presburger+)
  then show ?thesis
    by (simp add: base64_encode_def b64_padding_def L_def m_def)
qed

lemma repad:
  "(4 - length (b64_sextets bytes) mod 4) mod 4 = (3 - length bytes mod 3) mod 3"
proof -
  have "length bytes mod 3 = 0 \<or> length bytes mod 3 = 1 \<or> length bytes mod 3 = 2" by arith
  then show ?thesis by (auto simp: length_b64_sextets)
qed

lemma padding_le_2: "(3 - n mod 3) mod 3 \<le> (2::nat)"
  by arith

lemma filter_ws_base64:
  "filter (\<lambda>c. \<not> is_ascii_whitespace c) (map b64_char S @ replicate k 61)
     = map b64_char S @ replicate k 61"
proof -
  have "\<not> is_ascii_whitespace 61" by (simp add: is_ascii_whitespace_def)
  then show ?thesis by (intro filter_True) (auto simp: b64_char_not_special)
qed

lemma strip_eq_chars: "strip_eq (map b64_char S) = map b64_char S"
  by (cases S rule: rev_cases) (simp_all add: strip_eq_def b64_char_not_special)

lemma strip_eq_snoc: "strip_eq (xs @ [61]) = xs"
  by (simp add: strip_eq_def)

lemma strip_eq_padding:
  assumes "k \<le> 2"
  shows "strip_eq (strip_eq (map b64_char S @ replicate k 61)) = map b64_char S"
proof -
  from assms consider "k = 0" | "k = 1" | "k = 2" by linarith
  then show ?thesis
  proof cases
    case 1 then show ?thesis by (simp add: strip_eq_chars)
  next
    case 2 then show ?thesis by (simp add: strip_eq_chars strip_eq_snoc)
  next
    case 3
    have "map b64_char S @ replicate 2 61 = (map b64_char S @ [61]) @ [61]"
      by (simp add: numeral_2_eq_2)
    with 3 show ?thesis by (simp only: strip_eq_snoc)
  qed
qed

lemma base64_encode_eq:
  "base64_encode bytes =
     map b64_char (b64_sextets bytes) @ replicate ((3 - length bytes mod 3) mod 3) 61"
  by (simp add: base64_encode_def b64_padding_def)

lemma atob_base64_encode:
  assumes "list_all (\<lambda>c. c \<le> 255) bytes"
  shows "atob (base64_encode bytes) = Inr bytes"
proof -
  let ?S = "b64_sextets bytes"
  let ?k = "(3 - length bytes mod 3) mod 3"
  have len: "length (map b64_char ?S @ replicate ?k 61) mod 4 = 0"
    using length_base64_encode [of bytes] by (simp only: base64_encode_eq)
  have ne1: "length (map b64_char ?S) mod 4 \<noteq> 1"
    by (simp add: length_b64_sextets)
  have idx: "indices (map b64_char ?S) = Some ?S"
    by (rule indices_map_char) (rule b64_sextets_bound [OF assms])
  show ?thesis
    unfolding atob_def base64_encode_eq filter_ws_base64 Let_def
    using len ne1 idx b64_bytes_sextets [OF assms]
    by (simp add: strip_eq_padding [OF padding_le_2])
qed

section \<open>The URL-safe remapping and its inverse\<close>

lemma replace_append:
  "replace_plus_slash_eq (xs @ ys) = replace_plus_slash_eq xs @ replace_plus_slash_eq ys"
  by (simp add: replace_plus_slash_eq_def)

lemma replace_padding: "replace_plus_slash_eq (replicate k 61) = []"
  by (induction k) (simp_all add: replace_plus_slash_eq_def replacement_def js_def)

lemma replace_chars:
  "replace_plus_slash_eq (map b64_char S) = map spec_url_safe (map b64_char S)"
  by (induction S)
     (simp_all add: replace_plus_slash_eq_def replacement_def spec_url_safe_def js_def
        b64_char_not_special)

lemma replace_base64_encode:
  "replace_plus_slash_eq (base64_encode bytes) = map spec_url_safe (map b64_char (b64_sextets bytes))"
  by (simp add: base64_encode_eq replace_append replace_padding replace_chars)

lemma url_safe_not_special:
  "spec_url_safe c \<noteq> 43" "spec_url_safe c \<noteq> 47"
  "spec_url_safe (b64_char i) \<noteq> 61"
  by (simp_all add: spec_url_safe_def b64_char_not_special)

lemma strip_trailing_eq:
  "ys = [] \<or> last ys \<noteq> 61 \<Longrightarrow>
   rev (dropWhile (\<lambda>c. c = 61) (replicate k 61 @ rev ys)) = ys"
proof (induction k)
  case 0
  then show ?case by (cases ys rule: rev_cases) simp_all
next
  case (Suc k)
  then show ?case by simp
qed

lemma strip_padding_base64_encode:
  "spec_strip_padding (map spec_url_safe (base64_encode bytes))
     = map spec_url_safe (map b64_char (b64_sextets bytes))"
proof -
  let ?ys = "map spec_url_safe (map b64_char (b64_sextets bytes))"
  have "?ys = [] \<or> last ?ys \<noteq> 61"
    by (cases "b64_sextets bytes = []") (simp_all add: last_map url_safe_not_special)
  from strip_trailing_eq [OF this] show ?thesis
    unfolding spec_strip_padding_def base64_encode_eq
    by (simp add: spec_url_safe_def [of 61])
qed

lemma unmap_url_safe:
  "replace_all 95 47 (replace_all 45 43 (map spec_url_safe (map b64_char S))) = map b64_char S"
  by (auto simp: replace_all_def spec_url_safe_def b64_char_not_special)

section \<open>Fields, numerals and \<^verbatim>\<open>parseInt\<close>\<close>

lemma split_not_Nil: "split sep s \<noteq> []"
  by (induction s) (simp_all split: list.split)

lemma split_no_sep: "sep \<notin> set xs \<Longrightarrow> split sep xs = [xs]"
  by (induction xs) simp_all

lemma split_field: "sep \<notin> set xs \<Longrightarrow> split sep (xs @ sep # ys) = xs # split sep ys"
  by (induction xs) (simp_all split: list.split add: split_not_Nil)

lemma split_three:
  assumes "sep \<notin> set a" "sep \<notin> set b" "sep \<notin> set c"
  shows "split sep (a @ sep # b @ sep # c) = [a, b, c]"
  by (simp add: split_field split_no_sep assms)

lemma digits_dec: "list_all (\<lambda>c. 48 \<le> c \<and> c \<le> 57) (digits n)"
proof (induction n rule: digits.induct)
  case (1 n)
  show ?case
  proof (cases "n < 10")
    case True
    then show ?thesis by (simp add: digits.simps [of n])
  next
    case False
    have "n mod 10 < 10" by simp
    then have "48 + n mod 10 \<le> 57" by linarith
    with False 1 show ?thesis by (simp add: digits.simps [of n])
  qed
qed

lemma digits_not_Nil: "digits n \<noteq> []"
  by (simp add: digits.simps [of n])

lemma radix_value_snoc:
  "radix_value R (xs @ [c]) =
     radix_value R xs * R + (case digit_value c of None \<Rightarrow> 0 | Some v \<Rightarrow> v)"
  by (simp add: radix_value_def)

lemma digit_value_dec: "d < 10 \<Longrightarrow> digit_value (48 + d) = Some d"
  by (simp add: digit_value_def)

lemma radix_value_digits: "radix_value 10 (digits n) = n"
proof (induction n rule: digits.induct)
  case (1 n)
  show ?case
  proof (cases "n < 10")
    case True
    then show ?thesis
      by (simp add: digits.simps [of n] radix_value_def digit_value_dec)
  next
    case False
    have "n mod 10 < 10" by simp
    then have "digit_value (48 + n mod 10) = Some (n mod 10)" by (rule digit_value_dec)
    with False 1 show ?thesis
      by (simp add: digits.simps [of n] radix_value_snoc)
  qed
qed

lemma dec_facts:
  assumes "48 \<le> c \<and> c \<le> 57"
  shows "is_radix_digit 10 c" "\<not> is_js_whitespace c" "c \<noteq> 45" "c \<noteq> 43" "c \<noteq> 120"
    "c \<noteq> 88" "c \<noteq> 58" "c \<le> 255"
  using assms by (auto simp add: is_radix_digit_def digit_value_def is_js_whitespace_def)

lemma parseInt_decimal:
  assumes "ds \<noteq> []" "list_all (\<lambda>c. 48 \<le> c \<and> c \<le> 57) ds"
  shows "parseInt ds = to_double (int (radix_value 10 ds))"
    and "parseInt (45 # ds) = to_double (- int (radix_value 10 ds))"
proof -
  from assms obtain c cs where ds: "ds = c # cs" by (cases ds) auto
  with assms have c: "48 \<le> c \<and> c \<le> 57" by simp
  have ws: "dropWhile is_js_whitespace ds = ds"
    using dec_facts(2) [OF c] by (simp add: ds)
  have sign: "strip_sign ds = (1, ds)"
    using dec_facts(3,4) [OF c] by (simp add: strip_sign_def ds)
  have prefix: "strip_prefix ds = (10, ds)"
  proof (cases cs)
    case Nil
    then show ?thesis by (simp add: strip_prefix_def ds)
  next
    case (Cons d rest)
    with assms ds have "48 \<le> d \<and> d \<le> 57" by simp
    from dec_facts(5,6) [OF this] show ?thesis by (simp add: strip_prefix_def ds Cons)
  qed
  have all: "takeWhile (is_radix_digit 10) ds = ds"
    using assms(2) by (simp add: list_all_iff dec_facts(1))
  show "parseInt ds = to_double (int (radix_value 10 ds))"
    using assms(1) by (simp add: parseInt_def ws sign prefix all)
  have minus: "\<not> is_js_whitespace 45" by (simp add: is_js_whitespace_def)
  have sign': "strip_sign (45 # ds) = (- 1, ds)" by (simp add: strip_sign_def)
  show "parseInt (45 # ds) = to_double (- int (radix_value 10 ds))"
    using assms(1) minus by (simp add: parseInt_def sign' prefix all)
qed

lemma parseInt_number_to_string:
  assumes "\<bar>e\<bar> \<le> 9007199254740992"
  shows "parseInt (number_to_string (Finite e)) = Finite e"
proof (cases "e < 0")
  case True
  then have "parseInt (number_to_string (Finite e)) = to_double (- int (nat (- e)))"
    by (simp add: parseInt_decimal(2) [OF digits_not_Nil digits_dec] radix_value_digits)
  with True assms show ?thesis by (simp add: to_double_def)
next
  case False
  then have "parseInt (number_to_string (Finite e)) = to_double (int (nat e))"
    by (simp add: parseInt_decimal(1) [OF digits_not_Nil digits_dec] radix_value_digits)
  with False assms show ?thesis by (simp add: to_double_def)
qed

lemma number_to_string_chars:
  "list_all (\<lambda>c. c \<le> 255 \<and> c \<noteq> 58) (number_to_string x)"
proof -
  have "list_all (\<lambda>c. c \<le> 255 \<and> c \<noteq> 58) (digits n)" for n
    using digits_dec [of n] by (auto simp: list_all_iff)
  then show ?thesis
    by (cases x) (simp_all add: js_def)
qed

section \<open>Decoding a generated token\<close>

lemma token_data_string_eq:
  "token_data_string f ip e = f @ 58 # ip @ 58 # number_to_string e"
  by (simp add: token_data_string_def js_def)

lemma token_data_string_latin1:
  "list_all (\<lambda>c. c \<le> 255) (token_data_string f ip e) \<longleftrightarrow> list_all (\<lambda>c. c \<le> 255) (f @ ip)"
  using number_to_string_chars [of e]
  by (auto simp: token_data_string_eq list_all_iff)

lemma generateTempToken_eq:
  "generateTempToken f ip e =
     (if list_all (\<lambda>c. c \<le> 255) (f @ ip)
      then Inr (map spec_url_safe (map b64_char (b64_sextets (token_data_string f ip e))))
      else Inl InvalidCharacterError)"
  unfolding generateTempToken_def Let_def btoa_def token_data_string_latin1
  by (simp add: replace_base64_encode)

lemma decode_token_encoded:
  assumes "list_all (\<lambda>c. c \<le> 255) data"
  shows "decode_token (map spec_url_safe (map b64_char (b64_sextets data)))
           = Inr (hd (split 58 data), element (split 58 data) 1,
                  parseInt (ToString (element (split 58 data) 2)))"
proof -
  let ?tok = "map spec_url_safe (map b64_char (b64_sextets data))"
  have len: "length ?tok = length (b64_sextets data)" by simp
  have "replace_all 95 47 (replace_all 45 43 ?tok)
          @ replicate ((4 - length ?tok mod 4) mod 4) 61 = base64_encode data"
    unfolding len repad unmap_url_safe base64_encode_eq ..
  then show ?thesis
    by (simp add: decode_token_def Let_def atob_base64_encode [OF assms])
qed

lemma decode_generated:
  assumes "list_all (\<lambda>c. c \<le> 255) (f @ ip)" "58 \<notin> set f" "58 \<notin> set ip"
    and "\<bar>e\<bar> \<le> 9007199254740992"
    and "generateTempToken f ip (Finite e) = Inr tok"
  shows "decode_token tok = Inr (f, Some ip, Finite e)"
proof -
  let ?data = "token_data_string f ip (Finite e)"
  have tok: "tok = map spec_url_safe (map b64_char (b64_sextets ?data))"
    using assms(1,5) by (simp add: generateTempToken_eq)
  have latin: "list_all (\<lambda>c. c \<le> 255) ?data"
    using assms(1) by (simp only: token_data_string_latin1)
  have "58 \<notin> set (number_to_string (Finite e))"
    using number_to_string_chars [of "Finite e"] by (auto simp: list_all_iff)
  then have parts: "split 58 ?data = [f, ip, number_to_string (Finite e)]"
    unfolding token_data_string_eq using assms(2,3) by (intro split_three)
  show ?thesis
    unfolding tok decode_token_encoded [OF latin] parts
    by (simp add: element_def parseInt_number_to_string [OF assms(4)]
          del: number_to_string.simps)
qed

section \<open>Concrete tokens\<close>

lemmas concrete_encode =
  generateTempToken_eq token_data_string_def js_def digits.simps spec_url_safe_def b64_char_def

lemma replicate_small:
  "replicate 1 x = [x]" "replicate 2 x = [x, x]" "replicate 3 x = [x, x, x]"
  by (simp_all add: numeral_2_eq_2 numeral_3_eq_3)

lemmas concrete_decode =
  decode_token_def js_def replace_all_def atob_def is_ascii_whitespace_def strip_eq_def
  b64_index_def element_def parseInt_def is_js_whitespace_def strip_sign_def strip_prefix_def
  is_radix_digit_def digit_value_def radix_value_def to_double_def Let_def replicate_small

lemma token_1000:
  "generateTempToken (js ''FILE123'') (js ''1.2.3.4'') (Finite 1000)
     = Inr (js ''RklMRTEyMzoxLjIuMy40OjEwMDA'')"
  by (simp add: concrete_encode)

lemma decode_1000:
  "decode_token (js ''RklMRTEyMzoxLjIuMy40OjEwMDA'')
     = Inr (js ''FILE123'', Some (js ''1.2.3.4''), Finite 1000)"
  by (simp add: concrete_decode)

lemma token_colon_identity:
  "generateTempToken (js ''F'') (js ''::1'') (Finite 5) = Inr (js ''Rjo6OjE6NQ'')"
  by (simp add: concrete_encode)

lemma decode_colon_identity:
  "decode_token (js ''Rjo6OjE6NQ'') = Inr (js ''F'', Some (js ''''), NaN)"
  by (simp add: concrete_decode)

lemma decode_QQ: "decode_token (js ''QQ'') = Inr (js ''A'', None, NaN)"
  by (simp add: concrete_decode)

lemma decode_soon:
  "decode_token (js ''RklMRTEyMzoxLjIuMy40OnNvb24'')
     = Inr (js ''FILE123'', Some (js ''1.2.3.4''), NaN)"
  by (simp add: concrete_decode)

lemma token_remapped:
  "generateTempToken (js ''a>>?'') (js ''?'') (Finite 1) = Inr (js ''YT4-Pzo_OjE'')"
  by (simp add: concrete_encode)

section \<open>The claims about the token functions\<close>

text \<open>
  C9. Verification does not depend on the caller's identity: for every token and any
  two identities the result of \<open>verifyTempToken\<close> is the same, so a mismatch between the
  embedded and the presented identity never causes a rejection.
\<close>

theorem verifyTempToken_ignores_userIP:
  "verifyTempToken now token ip1 = verifyTempToken now token ip2"
  by (simp add: verifyTempToken_def Let_def split: sum.split prod.split)

theorem verifyTempToken_ignores_userIP_witness:
  "verifyTempToken 999 (js ''RklMRTEyMzoxLjIuMy40OjEwMDA'') (js ''1.2.3.4'')
     = verifyTempToken 999 (js ''RklMRTEyMzoxLjIuMy40OjEwMDA'') (js ''5.6.7.8'')"
  by (rule verifyTempToken_ignores_userIP)

text \<open>
  C1. The claim: a token whose decoded content does not split into exactly three
  fields, or whose third field is no integer, or whose base64 decoding fails, is
  answered with \<^verbatim>\<open>null\<close>. The code does so only when \<^verbatim>\<open>atob\<close> throws. The token \<^verbatim>\<open>QQ\<close>
  decodes to the single field \<^verbatim>\<open>A\<close>; the missing expiry parses to NaN, the comparison
  \<^verbatim>\<open>Date.now() > NaN\<close> is false, and the token is accepted at every instant and for every
  caller. So is the token of \<^verbatim>\<open>FILE123:1.2.3.4:soon\<close>, whose third field is no integer.
\<close>

theorem verifyTempToken_accepts_malformed:
  "verifyTempToken now (js ''QQ'') userIP = Some \<lparr>file_id = js ''A'', expires_at = NaN\<rparr>
   \<and> verifyTempToken now (js ''RklMRTEyMzoxLjIuMy40OnNvb24'') userIP
       = Some \<lparr>file_id = js ''FILE123'', expires_at = NaN\<rparr>"
  by (simp add: verifyTempToken_def decode_QQ decode_soon)

lemma generated_latin1:
  "generateTempToken fileId userIP expiresAt = Inr token
     \<Longrightarrow> list_all (\<lambda>c. c \<le> 255) (fileId @ userIP)"
  by (simp add: generateTempToken_eq split: if_splits)

text \<open>
  C4. Verification checks \<open>now \<le> expiresAt\<close>: of two tokens minted by
  \<open>generateTempToken\<close> for fields without \<^verbatim>\<open>:\<close>, the one with the expiry \<open>now - 1\<close> is
  rejected at the instant \<open>now\<close>, and the one with the expiry \<open>now + 1\<close> is accepted with
  its file id and expiry; at an instant \<open>t\<close> the latter is rejected exactly when \<open>t\<close> is
  after its expiry.
\<close>

theorem expiry_boundary:
  assumes "generateTempToken f1 ip1 (Finite (now - 1)) = Inr expired"
    and "generateTempToken f2 ip2 (Finite (now + 1)) = Inr fresh"
    and "cu CHR '':'' \<notin> set f1" "cu CHR '':'' \<notin> set ip1"
    and "cu CHR '':'' \<notin> set f2" "cu CHR '':'' \<notin> set ip2"
    and "\<bar>now\<bar> < 9007199254740992"
  shows "verifyTempToken now expired userIP = None
         \<and> verifyTempToken now fresh userIP
             = Some \<lparr>file_id = f2, expires_at = Finite (now + 1)\<rparr>
         \<and> (verifyTempToken t fresh userIP = None \<longleftrightarrow> now + 1 < t)"
proof -
  from assms(7) have r1: "\<bar>now - 1\<bar> \<le> 9007199254740992"
    and r2: "\<bar>now + 1\<bar> \<le> 9007199254740992" by linarith+
  from assms(3-6) have c: "58 \<notin> set f1" "58 \<notin> set ip1" "58 \<notin> set f2" "58 \<notin> set ip2"
    by simp_all
  have d1: "decode_token expired = Inr (f1, Some ip1, Finite (now - 1))"
    by (rule decode_generated [OF generated_latin1 [OF assms(1)] c(1,2) r1 assms(1)])
  have d2: "decode_token fresh = Inr (f2, Some ip2, Finite (now + 1))"
    by (rule decode_generated [OF generated_latin1 [OF assms(2)] c(3,4) r2 assms(2)])
  show ?thesis by (simp add: verifyTempToken_def d1 d2)
qed

theorem expiry_boundary_witness:
  "generateTempToken (js ''a>>?'') (js ''?'') (Finite (0 - 1)) = Inr (js ''YT4-Pzo_Oi0x'')
   \<and> generateTempToken (js ''a>>?'') (js ''?'') (Finite (0 + 1)) = Inr (js ''YT4-Pzo_OjE'')
   \<and> cu CHR '':'' \<notin> set (js ''a>>?'') \<and> cu CHR '':'' \<notin> set (js ''?'')
   \<and> \<bar>0 :: int\<bar> < 9007199254740992
   \<and> verifyTempToken 0 (js ''YT4-Pzo_Oi0x'') (js ''5.6.7.8'') = None
   \<and> verifyTempToken 0 (js ''YT4-Pzo_OjE'') (js ''5.6.7.8'')
       = Some \<lparr>file_id = js ''a>>?'', expires_at = Finite (0 + 1)\<rparr>
   \<and> (verifyTempToken 2 (js ''YT4-Pzo_OjE'') (js ''5.6.7.8'') = None
        \<longleftrightarrow> (0 :: int) + 1 < 2)"
proof -
  have a: "generateTempToken (js ''a>>?'') (js ''?'') (Finite (0 - 1)) = Inr (js ''YT4-Pzo_Oi0x'')"
    by (simp add: concrete_encode)
  have b: "generateTempToken (js ''a>>?'') (js ''?'') (Finite (0 + 1)) = Inr (js ''YT4-Pzo_OjE'')"
    by (simp add: token_remapped)
  have c: "cu CHR '':'' \<notin> set (js ''a>>?'')" "cu CHR '':'' \<notin> set (js ''?'')"
    by (simp_all add: js_def)
  have r: "\<bar>0 :: int\<bar> < 9007199254740992" by simp
  from expiry_boundary [OF a b c c r, of "js ''5.6.7.8''" 2] a b c r show ?thesis
    by blast
qed

lemma spec_encode_eq:
  "spec_encode f ip e
     = map spec_url_safe (map b64_char (b64_sextets (token_data_string f ip e)))"
  by (simp add: spec_encode_def strip_padding_base64_encode token_data_string_eq)

text \<open>
  C6. The encoding is the reference one: \<open>generateTempToken\<close> produces a token exactly
  when all code units of the file id and of the identity are at most \<open>0xFF\<close> (else
  \<^verbatim>\<open>btoa\<close> throws), the token is the colon-joined triple in base64 with \<^verbatim>\<open>+\<close> mapped to
  \<^verbatim>\<open>-\<close>, \<^verbatim>\<open>/\<close> to \<^verbatim>\<open>_\<close> and the padding stripped, and no produced token contains \<^verbatim>\<open>+\<close>,
  \<^verbatim>\<open>/\<close> or \<^verbatim>\<open>=\<close>.
\<close>

theorem generateTempToken_refines_spec:
  "(list_all (\<lambda>c. c \<le> 255) (fileId @ userIP)
      \<longrightarrow> generateTempToken fileId userIP expiresAt = Inr (spec_encode fileId userIP expiresAt))
   \<and> (generateTempToken fileId userIP expiresAt = Inr token
      \<longrightarrow> token = spec_encode fileId userIP expiresAt
          \<and> cu CHR ''+'' \<notin> set token \<and> cu CHR ''/'' \<notin> set token \<and> cu CHR ''='' \<notin> set token)"
proof -
  have "cu CHR ''+'' \<notin> set (spec_encode fileId userIP expiresAt)"
    "cu CHR ''/'' \<notin> set (spec_encode fileId userIP expiresAt)"
    "cu CHR ''='' \<notin> set (spec_encode fileId userIP expiresAt)"
    using url_safe_not_special by (auto simp: spec_encode_eq)
  then show ?thesis
    by (auto simp: generateTempToken_eq spec_encode_eq split: if_splits)
qed

theorem generateTempToken_refines_spec_witness:
  "list_all (\<lambda>c. c \<le> 255) (js ''a>>?'' @ js ''?'')
   \<and> generateTempToken (js ''a>>?'') (js ''?'') (Finite 1) = Inr (js ''YT4-Pzo_OjE'')
   \<and> js ''YT4-Pzo_OjE'' = spec_encode (js ''a>>?'') (js ''?'') (Finite 1)
   \<and> cu CHR ''+'' \<notin> set (js ''YT4-Pzo_OjE'') \<and> cu CHR ''/'' \<notin> set (js ''YT4-Pzo_OjE'')
   \<and> cu CHR ''='' \<notin> set (js ''YT4-Pzo_OjE'')"
  using generateTempToken_refines_spec
    [of "js ''a>>?''" "js ''?''" "Finite 1" "js ''YT4-Pzo_OjE''"] token_remapped
  by (simp add: js_def)

text \<open>
  C2. The claim: decoding the encoding of every valid triple gives the triple back.
  It fails when a field contains the separator: for the identity \<^verbatim>\<open>::1\<close> the decoded
  identity is empty and the expiry NaN (and the token then never expires).
\<close>

theorem roundtrip_fails_for_colon_identity:
  "generateTempToken (js ''F'') (js ''::1'') (Finite 5) = Inr (js ''Rjo6OjE6NQ'')
   \<and> decode_token (js ''Rjo6OjE6NQ'') = Inr (js ''F'', Some (js ''''), NaN)
   \<and> verifyTempToken 0 (js ''Rjo6OjE6NQ'') (js ''::1'')
       = Some \<lparr>file_id = js ''F'', expires_at = NaN\<rparr>"
  by (simp add: token_colon_identity decode_colon_identity verifyTempToken_def)

text \<open>
  C2, amended. For every triple whose file id and identity contain no \<^verbatim>\<open>:\<close> and only
  code units up to \<open>0xFF\<close>, and whose expiry is an integer of magnitude at most \<open>2^53\<close>,
  the token is produced, its decoding gives the three fields back, and verification at
  any instant up to the expiry returns the file id and the expiry, whoever the caller.
\<close>

theorem token_roundtrip:
  assumes "list_all (\<lambda>c. c \<le> 255) (fileId @ userIP)"
    and "cu CHR '':'' \<notin> set fileId" "cu CHR '':'' \<notin> set userIP"
    and "\<bar>expiresAt\<bar> \<le> 9007199254740992"
    and "now \<le> expiresAt"
  shows "\<exists>token. generateTempToken fileId userIP (Finite expiresAt) = Inr token
           \<and> decode_token token = Inr (fileId, Some userIP, Finite expiresAt)
           \<and> verifyTempToken now token caller
               = Some \<lparr>file_id = fileId, expires_at = Finite expiresAt\<rparr>"
proof -
  from assms(1) obtain token
    where gen: "generateTempToken fileId userIP (Finite expiresAt) = Inr token"
    by (simp add: generateTempToken_eq)
  from assms(2,3) have "58 \<notin> set fileId" "58 \<notin> set userIP" by simp_all
  from decode_generated [OF assms(1) this assms(4) gen]
  have dec: "decode_token token = Inr (fileId, Some userIP, Finite expiresAt)" .
  with assms(5) have "verifyTempToken now token caller
                        = Some \<lparr>file_id = fileId, expires_at = Finite expiresAt\<rparr>"
    by (simp add: verifyTempToken_def)
  with gen dec show ?thesis by blast
qed

theorem token_roundtrip_witness:
  "list_all (\<lambda>c. c \<le> 255) (js ''FILE123'' @ js ''1.2.3.4'')
   \<and> cu CHR '':'' \<notin> set (js ''FILE123'') \<and> cu CHR '':'' \<notin> set (js ''1.2.3.4'')
   \<and> \<bar>1000 :: int\<bar> \<le> 9007199254740992 \<and> (999 :: int) \<le> 1000
   \<and> (\<exists>token. generateTempToken (js ''FILE123'') (js ''1.2.3.4'') (Finite 1000) = Inr token
           \<and> decode_token token = Inr (js ''FILE123'', Some (js ''1.2.3.4''), Finite 1000)
           \<and> verifyTempToken 999 token (js ''5.6.7.8'')
               = Some \<lparr>file_id = js ''FILE123'', expires_at = Finite 1000\<rparr>)"
proof -
  have h: "list_all (\<lambda>c. c \<le> 255) (js ''FILE123'' @ js ''1.2.3.4'')"
    "cu CHR '':'' \<notin> set (js ''FILE123'')" "cu CHR '':'' \<notin> set (js ''1.2.3.4'')"
    "\<bar>1000 :: int\<bar> \<le> 9007199254740992" "(999 :: int) \<le> 1000"
    by (simp_all add: js_def)
  from token_roundtrip [OF h, of "js ''5.6.7.8''"] h show ?thesis by blast
qed

section \<open>The issuing handler\<close>

lemma get_file_url_try_success:
  assumes "get_file_url_try e req fid slug ip = (Returns (Json_video v), effects)"
  shows "\<exists>botToken movie fileResponse fileData res token.
           TELEGRAM_BOT_TOKEN e = Some botToken \<and> botToken \<noteq> []
           \<and> db_first e slug = Returns (Some movie)
           \<and> fetch e (js ''https://api.telegram.org/bot'' @ botToken
                         @ js ''/getFile?file_id='' @ fid) = Returns fileResponse
           \<and> resp_json fileResponse = Returns fileData \<and> ok fileData
           \<and> result fileData = Some res
           \<and> \<bar>date_now e + 3600000\<bar> \<le> 8640000000000000
           \<and> generateTempToken fid ip (Finite (date_now e + 3600000)) = Inr token
           \<and> v = \<lparr>video_url = js ''/api/telegram/stream/'' @ token,
                   direct_url = js ''https://api.telegram.org/file/bot'' @ botToken
                                  @ js ''/'' @ file_path res,
                   resp_expires_at = date_now e + 3600000,
                   resp_file_size = file_size res\<rparr>"
  using assms unfolding get_file_url_try_def Let_def Date_new_def
  by (auto split: option.splits outcome.splits if_splits sum.splits)

lemma get_file_url_success:
  assumes "get_file_url e req = (Returns (Json_video v), effects)"
  shows "\<exists>fid slug. json_body req = Returns (fid, slug)
           \<and> get_file_url_try e req fid slug (userIP_of req) = (Returns (Json_video v), effects)"
  using assms unfolding get_file_url_def
  by (auto split: outcome.splits prod.splits)

lemma token_3600000:
  "generateTempToken (js ''FILE123'') (js ''1.2.3.4'') (Finite 3600000)
     = Inr (js ''RklMRTEyMzoxLjIuMy40OjM2MDAwMDA'')"
  by (simp add: concrete_encode)

lemma token_3600000_colon:
  "generateTempToken (js ''FILE123'') (js ''::1'') (Finite 3600000)
     = Inr (js ''RklMRTEyMzo6OjE6MzYwMDAwMA'')"
  by (simp add: concrete_encode)

lemma decode_3600000_colon:
  "decode_token (js ''RklMRTEyMzo6OjE6MzYwMDAwMA'') = Inr (js ''FILE123'', Some (js ''''), NaN)"
  by (simp add: concrete_decode)

lemmas scenario_defs =
  scenario_env_def scenario_env_insert_fails_def scenario_request_def scenario_header_def
  scenario_db_first_def scenario_db_run_def scenario_db_run_fails_def scenario_fetch_def
  scenario_upstream_def scenario_no_header_def userIP_of_def or_else_def

lemma scenario_userIP:
  "ip \<noteq> [] \<Longrightarrow> userIP_of (scenario_request ip token) = ip"
  by (simp add: scenario_defs js_def)

lemma get_file_url_try_run:
  assumes "TELEGRAM_BOT_TOKEN e = Some botToken" "botToken \<noteq> []"
    and "db_first e slug = Returns (Some movie)"
    and "fetch e (js ''https://api.telegram.org/bot'' @ botToken
                    @ js ''/getFile?file_id='' @ fid) = Returns fileResponse"
    and "resp_json fileResponse = Returns fileData" "ok fileData" "result fileData = Some res"
    and "generateTempToken fid ip (Finite (date_now e + 3600000)) = Inr token"
    and "\<bar>date_now e + 3600000\<bar> \<le> 8640000000000000"
  shows "fst (get_file_url_try e req fid slug ip) =
           (case db_run e \<lparr>event_type = js ''video_access_request'',
                            page_url = js ''/watch/'' @ slug,
                            row_movie_id = movie_id movie,
                            user_ip = ip,
                            user_agent = header req (js ''User-Agent'')\<rparr> of
              Throws \<Rightarrow> Throws
            | Returns u \<Rightarrow>
                Returns (Json_video
                  \<lparr>video_url = js ''/api/telegram/stream/'' @ token,
                   direct_url = js ''https://api.telegram.org/file/bot'' @ botToken
                                  @ js ''/'' @ file_path res,
                   resp_expires_at = date_now e + 3600000,
                   resp_file_size = file_size res\<rparr>))"
  using assms unfolding get_file_url_try_def Let_def Date_new_def
  by (simp split: outcome.split)

lemma get_file_url_fst:
  assumes "json_body req = Returns (fid, slug)"
  shows "fst (get_file_url e req) =
           (case fst (get_file_url_try e req fid slug (userIP_of req)) of
              Throws \<Rightarrow> Returns (Json_error 500 (js ''Failed to get video URL''))
            | Returns r \<Rightarrow> Returns r)"
  using assms by (simp add: get_file_url_def split: prod.split outcome.split)

lemma scenario_issue:
  assumes "ip \<noteq> []"
    and "generateTempToken (js ''FILE123'') ip (Finite 3600000) = Inr token"
  shows "fst (get_file_url (scenario_env 0) (scenario_request ip [])) =
           Returns (Json_video
             \<lparr>video_url = js ''/api/telegram/stream/'' @ token,
              direct_url = js ''https://api.telegram.org/file/bot123:SECRET/videos/file_7.mp4'',
              resp_expires_at = 3600000,
              resp_file_size = Some 1048576\<rparr>)"
proof -
  let ?e = "scenario_env 0"
  let ?res = "\<lparr>file_path = js ''videos/file_7.mp4'', file_size = Some 1048576\<rparr>"
  let ?fd = "\<lparr>ok = True, result = Some ?res\<rparr>"
  have ip: "userIP_of (scenario_request ip []) = ip"
    by (rule scenario_userIP [OF assms(1)])
  have 1: "TELEGRAM_BOT_TOKEN ?e = Some (js ''123:SECRET'')" "js ''123:SECRET'' \<noteq> []"
    by (simp_all add: scenario_env_def js_def)
  have 2: "db_first ?e (js ''movie-x'') = Returns (Some \<lparr>movie_id = 7\<rparr>)"
    by (simp add: scenario_env_def scenario_db_first_def)
  have 3: "fetch ?e (js ''https://api.telegram.org/bot'' @ js ''123:SECRET''
                    @ js ''/getFile?file_id='' @ js ''FILE123'') = Returns scenario_upstream"
    by (simp add: scenario_env_def scenario_fetch_def)
  have 4: "resp_json scenario_upstream = Returns ?fd" "ok ?fd" "result ?fd = Some ?res"
    by (simp_all add: scenario_upstream_def)
  have 5: "generateTempToken (js ''FILE123'') ip (Finite (date_now ?e + 3600000)) = Inr token"
    "\<bar>date_now ?e + 3600000\<bar> \<le> 8640000000000000"
    using assms(2) by (simp_all add: scenario_env_def)
  have "fst (get_file_url_try ?e (scenario_request ip []) (js ''FILE123'') (js ''movie-x'') ip) =
           Returns (Json_video
             \<lparr>video_url = js ''/api/telegram/stream/'' @ token,
              direct_url = js ''https://api.telegram.org/file/bot'' @ js ''123:SECRET''
                                  @ js ''/'' @ js ''videos/file_7.mp4'',
              resp_expires_at = 3600000,
              resp_file_size = Some 1048576\<rparr>)"
    unfolding get_file_url_try_run [OF 1 2 3 4 5]
    by (simp add: scenario_env_def scenario_db_run_def)
  moreover have "json_body (scenario_request ip []) = Returns (js ''FILE123'', js ''movie-x'')"
    by (simp add: scenario_request_def)
  ultimately show ?thesis
    by (simp add: get_file_url_fst ip js_def)
qed

lemma scenario_issue_insert_fails:
  "fst (get_file_url (scenario_env_insert_fails 0) (scenario_request (js ''1.2.3.4'') []))
     = Returns (Json_error 500 (js ''Failed to get video URL''))"
proof -
  let ?e = "scenario_env_insert_fails 0"
  let ?ip = "js ''1.2.3.4''"
  let ?res = "\<lparr>file_path = js ''videos/file_7.mp4'', file_size = Some 1048576\<rparr>"
  let ?fd = "\<lparr>ok = True, result = Some ?res\<rparr>"
  have ip: "userIP_of (scenario_request ?ip []) = ?ip"
    by (rule scenario_userIP) (simp add: js_def)
  have 1: "TELEGRAM_BOT_TOKEN ?e = Some (js ''123:SECRET'')" "js ''123:SECRET'' \<noteq> []"
    by (simp_all add: scenario_env_insert_fails_def js_def)
  have 2: "db_first ?e (js ''movie-x'') = Returns (Some \<lparr>movie_id = 7\<rparr>)"
    by (simp add: scenario_env_insert_fails_def scenario_db_first_def)
  have 3: "fetch ?e (js ''https://api.telegram.org/bot'' @ js ''123:SECRET''
                    @ js ''/getFile?file_id='' @ js ''FILE123'') = Returns scenario_upstream"
    by (simp add: scenario_env_insert_fails_def scenario_fetch_def)
  have 4: "resp_json scenario_upstream = Returns ?fd" "ok ?fd" "result ?fd = Some ?res"
    by (simp_all add: scenario_upstream_def)
  have 5: "generateTempToken (js ''FILE123'') ?ip (Finite (date_now ?e + 3600000))
             = Inr (js ''RklMRTEyMzoxLjIuMy40OjM2MDAwMDA'')"
    "\<bar>date_now ?e + 3600000\<bar> \<le> 8640000000000000"
    using token_3600000 by (simp_all add: scenario_env_insert_fails_def)
  have "fst (get_file_url_try ?e (scenario_request ?ip []) (js ''FILE123'') (js ''movie-x'') ?ip)
          = Throws"
    unfolding get_file_url_try_run [OF 1 2 3 4 5]
    by (simp add: scenario_env_insert_fails_def scenario_db_run_fails_def)
  moreover have "json_body (scenario_request ?ip []) = Returns (js ''FILE123'', js ''movie-x'')"
    by (simp add: scenario_request_def)
  ultimately show ?thesis
    by (simp add: get_file_url_fst ip)
qed

lemma scenario_issue_ipv4:
  "fst (get_file_url (scenario_env 0) (scenario_request (js ''1.2.3.4'') []))
     = Returns (Json_video
         \<lparr>video_url = js ''/api/telegram/stream/'' @ js ''RklMRTEyMzoxLjIuMy40OjM2MDAwMDA'',
          direct_url = js ''https://api.telegram.org/file/bot123:SECRET/videos/file_7.mp4'',
          resp_expires_at = 3600000,
          resp_file_size = Some 1048576\<rparr>)"
proof -
  have "js ''1.2.3.4'' \<noteq> []" by (simp add: js_def)
  from scenario_issue [OF this token_3600000] show ?thesis .
qed

lemma decode_3600000:
  "decode_token (js ''RklMRTEyMzoxLjIuMy40OjM2MDAwMDA'')
     = Inr (js ''FILE123'', Some (js ''1.2.3.4''), Finite 3600000)"
  by (simp add: concrete_decode)

section \<open>The claims about the issuing handler\<close>

text \<open>
  C3. The claim: when resource lookup and upstream file resolution succeed, issuance
  succeeds whether or not the analytics insert does. In the code the insert is awaited
  inside the handler's \<^verbatim>\<open>try\<close> block, so when it throws, the answer is the 500 error.
  In the scenario with the failing insert the resource is found and the file resolved,
  and the handler answers \<^verbatim>\<open>Failed to get video URL\<close>.
\<close>

theorem issuance_fails_when_insert_fails:
  "db_first (scenario_env_insert_fails 0) (js ''movie-x'') = Returns (Some \<lparr>movie_id = 7\<rparr>)
   \<and> fetch (scenario_env_insert_fails 0)
         (js ''https://api.telegram.org/bot123:SECRET/getFile?file_id=FILE123'')
       = Returns scenario_upstream
   \<and> fst (get_file_url (scenario_env_insert_fails 0) (scenario_request (js ''1.2.3.4'') []))
       = Returns (Json_error 500 (js ''Failed to get video URL''))"
  by (simp add: scenario_issue_insert_fails)
     (simp add: scenario_env_insert_fails_def scenario_db_first_def scenario_fetch_def)

text \<open>
  C3, amended. When the bot credential is configured, the resource is found, the
  upstream resolves the file, the token can be encoded and the expiry is a valid date,
  the handler returns the success result with stream URL, expiry and file size if the
  analytics insert returns, and the 500 error \<^verbatim>\<open>Failed to get video URL\<close> if the insert
  throws.
\<close>

theorem issuance_depends_on_analytics_insert:
  assumes "json_body req = Returns (fid, slug)"
    and "TELEGRAM_BOT_TOKEN e = Some botToken" "botToken \<noteq> []"
    and "db_first e slug = Returns (Some movie)"
    and "fetch e (js ''https://api.telegram.org/bot'' @ botToken
                    @ js ''/getFile?file_id='' @ fid) = Returns fileResponse"
    and "resp_json fileResponse = Returns fileData" "ok fileData" "result fileData = Some res"
    and "generateTempToken fid (userIP_of req) (Finite (date_now e + 3600000)) = Inr token"
    and "\<bar>date_now e + 3600000\<bar> \<le> 8640000000000000"
  shows "fst (get_file_url e req) =
           (case db_run e \<lparr>event_type = js ''video_access_request'',
                            page_url = js ''/watch/'' @ slug,
                            row_movie_id = movie_id movie,
                            user_ip = userIP_of req,
                            user_agent = header req (js ''User-Agent'')\<rparr> of
              Throws \<Rightarrow> Returns (Json_error 500 (js ''Failed to get video URL''))
            | Returns u \<Rightarrow>
                Returns (Json_video
                  \<lparr>video_url = js ''/api/telegram/stream/'' @ token,
                   direct_url = js ''https://api.telegram.org/file/bot'' @ botToken
                                  @ js ''/'' @ file_path res,
                   resp_expires_at = date_now e + 3600000,
                   resp_file_size = file_size res\<rparr>))"
  unfolding get_file_url_fst [OF assms(1)] get_file_url_try_run [OF assms(2-10)]
  by (simp split: outcome.split)

theorem issuance_depends_on_analytics_insert_witness:
  "json_body (scenario_request (js ''1.2.3.4'') []) = Returns (js ''FILE123'', js ''movie-x'')
   \<and> TELEGRAM_BOT_TOKEN (scenario_env 0) = Some (js ''123:SECRET'')
   \<and> js ''123:SECRET'' \<noteq> []
   \<and> db_first (scenario_env 0) (js ''movie-x'') = Returns (Some \<lparr>movie_id = 7\<rparr>)
   \<and> fetch (scenario_env 0) (js ''https://api.telegram.org/bot'' @ js ''123:SECRET''
                    @ js ''/getFile?file_id='' @ js ''FILE123'') = Returns scenario_upstream
   \<and> resp_json scenario_upstream
       = Returns \<lparr>ok = True, result = Some \<lparr>file_path = js ''videos/file_7.mp4'',
                                               file_size = Some 1048576\<rparr>\<rparr>
   \<and> generateTempToken (js ''FILE123'') (userIP_of (scenario_request (js ''1.2.3.4'') []))
         (Finite (date_now (scenario_env 0) + 3600000))
       = Inr (js ''RklMRTEyMzoxLjIuMy40OjM2MDAwMDA'')
   \<and> \<bar>date_now (scenario_env 0) + 3600000\<bar> \<le> 8640000000000000
   \<and> fst (get_file_url (scenario_env 0) (scenario_request (js ''1.2.3.4'') []))
       = Returns (Json_video
           \<lparr>video_url = js ''/api/telegram/stream/'' @ js ''RklMRTEyMzoxLjIuMy40OjM2MDAwMDA'',
            direct_url = js ''https://api.telegram.org/file/bot'' @ js ''123:SECRET''
                           @ js ''/'' @ js ''videos/file_7.mp4'',
            resp_expires_at = 3600000,
            resp_file_size = Some 1048576\<rparr>)"
proof -
  let ?e = "scenario_env 0"
  let ?req = "scenario_request (js ''1.2.3.4'') []"
  let ?res = "\<lparr>file_path = js ''videos/file_7.mp4'', file_size = Some 1048576\<rparr>"
  let ?fd = "\<lparr>ok = True, result = Some ?res\<rparr>"
  have ip: "userIP_of ?req = js ''1.2.3.4''"
    by (rule scenario_userIP) (simp add: js_def)
  have 0: "json_body ?req = Returns (js ''FILE123'', js ''movie-x'')"
    by (simp add: scenario_request_def)
  have 1: "TELEGRAM_BOT_TOKEN ?e = Some (js ''123:SECRET'')" "js ''123:SECRET'' \<noteq> []"
    by (simp_all add: scenario_env_def js_def)
  have 2: "db_first ?e (js ''movie-x'') = Returns (Some \<lparr>movie_id = 7\<rparr>)"
    by (simp add: scenario_env_def scenario_db_first_def)
  have 3: "fetch ?e (js ''https://api.telegram.org/bot'' @ js ''123:SECRET''
                    @ js ''/getFile?file_id='' @ js ''FILE123'') = Returns scenario_upstream"
    by (simp add: scenario_env_def scenario_fetch_def)
  have 4: "resp_json scenario_upstream = Returns ?fd" "ok ?fd" "result ?fd = Some ?res"
    by (simp_all add: scenario_upstream_def)
  have 5: "generateTempToken (js ''FILE123'') (userIP_of ?req) (Finite (date_now ?e + 3600000))
             = Inr (js ''RklMRTEyMzoxLjIuMy40OjM2MDAwMDA'')"
    "\<bar>date_now ?e + 3600000\<bar> \<le> 8640000000000000"
    using token_3600000 by (simp_all add: scenario_env_def ip)
  have run: "db_run ?e row = Returns ()" for row
    by (simp add: scenario_env_def scenario_db_run_def)
  have "fst (get_file_url ?e ?req)
       = Returns (Json_video
           \<lparr>video_url = js ''/api/telegram/stream/'' @ js ''RklMRTEyMzoxLjIuMy40OjM2MDAwMDA'',
            direct_url = js ''https://api.telegram.org/file/bot'' @ js ''123:SECRET''
                           @ js ''/'' @ js ''videos/file_7.mp4'',
            resp_expires_at = 3600000,
            resp_file_size = Some 1048576\<rparr>)"
    unfolding issuance_depends_on_analytics_insert [OF 0 1 2 3 4 5] run
    by (simp add: scenario_env_def)
  with 0 1 2 3 4(1) 5 show ?thesis by blast
qed

text \<open>
  What holds of every successful issuance at instant \<open>T\<close>: the returned expiry is
  \<open>T + 3,600,000\<close> milliseconds, and the token in the stream URL is the encoding of the
  file id, the caller's identity and \<open>T + 3,600,000\<close>. The token decodes to these three
  values when neither the file id nor the identity contains \<^verbatim>\<open>:\<close>.
\<close>

lemma issued_token_expiry:
  assumes "fst (get_file_url e req) = Returns (Json_video v)"
    and "json_body req = Returns (fid, slug)"
  shows "resp_expires_at v = date_now e + 3600000
         \<and> (\<exists>token. video_url v = js ''/api/telegram/stream/'' @ token
               \<and> generateTempToken fid (userIP_of req) (Finite (date_now e + 3600000)) = Inr token
               \<and> (cu CHR '':'' \<notin> set fid \<and> cu CHR '':'' \<notin> set (userIP_of req)
                    \<longrightarrow> decode_token token
                          = Inr (fid, Some (userIP_of req), Finite (date_now e + 3600000))))"
proof -
  from assms(1) have "get_file_url e req = (Returns (Json_video v), snd (get_file_url e req))"
    by (metis prod.collapse)
  from get_file_url_success [OF this] assms(2)
  have "get_file_url_try e req fid slug (userIP_of req)
          = (Returns (Json_video v), snd (get_file_url e req))"
    by auto
  from get_file_url_try_success [OF this] obtain botToken and res :: file_result and token
    where range: "\<bar>date_now e + 3600000\<bar> \<le> 8640000000000000"
      and gen: "generateTempToken fid (userIP_of req) (Finite (date_now e + 3600000)) = Inr token"
      and v: "v = \<lparr>video_url = js ''/api/telegram/stream/'' @ token,
                   direct_url = js ''https://api.telegram.org/file/bot'' @ botToken
                                  @ js ''/'' @ file_path res,
                   resp_expires_at = date_now e + 3600000,
                   resp_file_size = file_size res\<rparr>"
    by blast
  from gen have latin: "list_all (\<lambda>c. c \<le> 255) (fid @ userIP_of req)"
    by (simp add: generateTempToken_eq split: if_splits)
  from range have safe: "\<bar>date_now e + 3600000\<bar> \<le> 9007199254740992" by linarith
  have "decode_token token = Inr (fid, Some (userIP_of req), Finite (date_now e + 3600000))"
    if "cu CHR '':'' \<notin> set fid" "cu CHR '':'' \<notin> set (userIP_of req)"
  proof -
    from that have "58 \<notin> set fid" "58 \<notin> set (userIP_of req)" by simp_all
    from decode_generated [OF latin this safe gen] show ?thesis .
  qed
  with gen v show ?thesis by auto
qed

lemma issued_token_expiry_instance:
  "fst (get_file_url (scenario_env 0) (scenario_request (js ''1.2.3.4'') []))
     = Returns (Json_video
         \<lparr>video_url = js ''/api/telegram/stream/'' @ js ''RklMRTEyMzoxLjIuMy40OjM2MDAwMDA'',
          direct_url = js ''https://api.telegram.org/file/bot123:SECRET/videos/file_7.mp4'',
          resp_expires_at = 3600000,
          resp_file_size = Some 1048576\<rparr>)
   \<and> json_body (scenario_request (js ''1.2.3.4'') []) = Returns (js ''FILE123'', js ''movie-x'')
   \<and> cu CHR '':'' \<notin> set (js ''FILE123'')
   \<and> cu CHR '':'' \<notin> set (userIP_of (scenario_request (js ''1.2.3.4'') []))
   \<and> generateTempToken (js ''FILE123'') (userIP_of (scenario_request (js ''1.2.3.4'') []))
         (Finite (date_now (scenario_env 0) + 3600000))
       = Inr (js ''RklMRTEyMzoxLjIuMy40OjM2MDAwMDA'')
   \<and> decode_token (js ''RklMRTEyMzoxLjIuMy40OjM2MDAwMDA'')
       = Inr (js ''FILE123'', Some (userIP_of (scenario_request (js ''1.2.3.4'') [])),
              Finite (date_now (scenario_env 0) + 3600000))"
proof -
  let ?req = "scenario_request (js ''1.2.3.4'') []"
  have ip: "userIP_of ?req = js ''1.2.3.4''"
    by (rule scenario_userIP) (simp add: js_def)
  have body: "json_body ?req = Returns (js ''FILE123'', js ''movie-x'')"
    by (simp add: scenario_request_def)
  have colon: "cu CHR '':'' \<notin> set (js ''FILE123'')" "cu CHR '':'' \<notin> set (userIP_of ?req)"
    by (simp_all add: ip) (simp_all add: js_def)
  from issued_token_expiry [OF scenario_issue_ipv4 body] colon
  obtain token where
    "js ''/api/telegram/stream/'' @ js ''RklMRTEyMzoxLjIuMy40OjM2MDAwMDA''
       = js ''/api/telegram/stream/'' @ token"
    and gen: "generateTempToken (js ''FILE123'') (userIP_of ?req)
                (Finite (date_now (scenario_env 0) + 3600000)) = Inr token"
    and dec: "decode_token token = Inr (js ''FILE123'', Some (userIP_of ?req),
                Finite (date_now (scenario_env 0) + 3600000))"
    by auto
  then have "token = js ''RklMRTEyMzoxLjIuMy40OjM2MDAwMDA''" by simp
  with gen dec scenario_issue_ipv4 body colon show ?thesis by blast
qed

lemma verify_colon_token:
  "verifyTempToken now (js ''RklMRTEyMzo6OjE6MzYwMDAwMA'') userIP
     = Some \<lparr>file_id = js ''FILE123'', expires_at = NaN\<rparr>"
  by (simp add: verifyTempToken_def decode_3600000_colon)

text \<open>
  C5. The claim: a token issued at instant \<open>T\<close> decodes to the expiry
  \<open>T + 3,600,000\<close>; the source minting it says \<^verbatim>\<open>valid for 1 hour\<close>. For a caller
  whose address contains \<^verbatim>\<open>:\<close> (an IPv6 address in \<^verbatim>\<open>CF-Connecting-IP\<close>) the code does
  otherwise: at \<open>T = 0\<close> and for the caller \<^verbatim>\<open>::1\<close> issuance succeeds and returns the
  expiry 3,600,000, but the minted token decodes to an empty identity and the expiry
  NaN, and verification accepts it at every instant.
\<close>

theorem issued_token_for_colon_identity:
  "fst (get_file_url (scenario_env 0) (scenario_request (js ''::1'') []))
     = Returns (Json_video
         \<lparr>video_url = js ''/api/telegram/stream/RklMRTEyMzo6OjE6MzYwMDAwMA'',
          direct_url = js ''https://api.telegram.org/file/bot123:SECRET/videos/file_7.mp4'',
          resp_expires_at = 3600000,
          resp_file_size = Some 1048576\<rparr>)
   \<and> decode_token (js ''RklMRTEyMzo6OjE6MzYwMDAwMA'') = Inr (js ''FILE123'', Some (js ''''), NaN)
   \<and> verifyTempToken now (js ''RklMRTEyMzo6OjE6MzYwMDAwMA'') userIP
       = Some \<lparr>file_id = js ''FILE123'', expires_at = NaN\<rparr>"
proof -
  have "js ''::1'' \<noteq> []" by (simp add: js_def)
  from scenario_issue [OF this token_3600000_colon] decode_3600000_colon verify_colon_token
  show ?thesis by (simp add: js_def)
qed

text \<open>
  C10. Every successful issuance response carries the bot credential: its
  \<^verbatim>\<open>direct_url\<close> is \<^verbatim>\<open>https://api.telegram.org/file/bot\<close>, the credential, \<^verbatim>\<open>/\<close> and the
  file path the upstream reported.
\<close>

theorem direct_url_exposes_bot_token:
  assumes "fst (get_file_url e req) = Returns (Json_video v)"
  shows "\<exists>botToken fileResponse fileData res url.
           TELEGRAM_BOT_TOKEN e = Some botToken \<and> botToken \<noteq> []
           \<and> fetch e url = Returns fileResponse
           \<and> resp_json fileResponse = Returns fileData
           \<and> result fileData = Some res
           \<and> direct_url v = js ''https://api.telegram.org/file/bot'' @ botToken
                               @ js ''/'' @ file_path res"
proof -
  from assms have "get_file_url e req = (Returns (Json_video v), snd (get_file_url e req))"
    by (metis prod.collapse)
  from get_file_url_success [OF this] obtain fid slug where
    "get_file_url_try e req fid slug (userIP_of req)
       = (Returns (Json_video v), snd (get_file_url e req))"
    by blast
  from get_file_url_try_success [OF this] show ?thesis
    by (elim exE conjE) (intro exI conjI, assumption+, simp)
qed

theorem direct_url_exposes_bot_token_witness:
  "fst (get_file_url (scenario_env 0) (scenario_request (js ''1.2.3.4'') []))
     = Returns (Json_video
         \<lparr>video_url = js ''/api/telegram/stream/'' @ js ''RklMRTEyMzoxLjIuMy40OjM2MDAwMDA'',
          direct_url = js ''https://api.telegram.org/file/bot123:SECRET/videos/file_7.mp4'',
          resp_expires_at = 3600000,
          resp_file_size = Some 1048576\<rparr>)
   \<and> TELEGRAM_BOT_TOKEN (scenario_env 0) = Some (js ''123:SECRET'')
   \<and> (\<exists>botToken fileResponse fileData res url.
           TELEGRAM_BOT_TOKEN (scenario_env 0) = Some botToken \<and> botToken \<noteq> []
           \<and> fetch (scenario_env 0) url = Returns fileResponse
           \<and> resp_json fileResponse = Returns fileData
           \<and> result fileData = Some res
           \<and> js ''https://api.telegram.org/file/bot123:SECRET/videos/file_7.mp4''
               = js ''https://api.telegram.org/file/bot'' @ botToken @ js ''/'' @ file_path res)"
proof -
  have "TELEGRAM_BOT_TOKEN (scenario_env 0) = Some (js ''123:SECRET'')"
    by (simp add: scenario_env_def)
  with direct_url_exposes_bot_token [OF scenario_issue_ipv4] scenario_issue_ipv4
  show ?thesis by simp
qed

section \<open>The claims about the stream handler\<close>

lemma stream_try_success:
  assumes "stream_try e token ip = (Returns (Stream status headers body), effects)"
  shows "\<exists>tokenData botToken fileResponse fileData res videoResponse.
           verifyTempToken (date_now e) token ip = Some tokenData
           \<and> TELEGRAM_BOT_TOKEN e = Some botToken \<and> botToken \<noteq> []
           \<and> fetch e (js ''https://api.telegram.org/bot'' @ botToken
                         @ js ''/getFile?file_id='' @ file_id tokenData) = Returns fileResponse
           \<and> resp_json fileResponse = Returns fileData \<and> ok fileData
           \<and> result fileData = Some res
           \<and> fetch e (js ''https://api.telegram.org/file/bot'' @ botToken
                         @ js ''/'' @ file_path res) = Returns videoResponse
           \<and> resp_ok videoResponse
           \<and> status = resp_status videoResponse
           \<and> headers = relay_headers videoResponse
           \<and> body = resp_body videoResponse"
  using assms unfolding stream_try_def Let_def
  by (auto split: option.splits outcome.splits if_splits)

lemma stream_fst:
  "fst (stream e req) =
     (case fst (stream_try e (param_token req) (userIP_of req)) of
        Throws \<Rightarrow> Returns (Json_error 500 (js ''Stream error''))
      | Returns r \<Rightarrow> Returns (cors r))"
  by (simp add: stream_def stream_handler_def split: prod.split outcome.split)

lemma cors_relay_headers:
  "headers_set (js ''Access-Control-Allow-Origin'') (js ''*'') (relay_headers videoResponse)
     = relay_headers videoResponse @ [(js ''Access-Control-Allow-Origin'', js ''*'')]"
  by (simp add: headers_set_def relay_headers_def js_def)

lemma stream_success:
  assumes "fst (stream e req) = Returns (Stream status headers body)"
  shows "\<exists>hs. stream_try e (param_token req) (userIP_of req)
                = (Returns (Stream status hs body), snd (stream e req))
              \<and> headers = headers_set (js ''Access-Control-Allow-Origin'') (js ''*'') hs"
proof -
  obtain r effects where t: "stream_try e (param_token req) (userIP_of req) = (r, effects)"
    by (cases "stream_try e (param_token req) (userIP_of req)")
  show ?thesis
  proof (cases r)
    case Throws
    with t assms show ?thesis by (simp add: stream_def stream_handler_def)
  next
    case (Returns x)
    with t assms show ?thesis
      by (cases x) (simp_all add: stream_def stream_handler_def)
  qed
qed

lemma scenario_stream:
  "fst (stream (scenario_env 0)
         (scenario_request (js ''1.2.3.4'') (js ''RklMRTEyMzoxLjIuMy40OjEwMDA'')))
     = Returns (Stream 200
         [(js ''Content-Type'', js ''video/mp4''),
          (js ''Content-Length'', js ''0''),
          (js ''Accept-Ranges'', js ''bytes''),
          (js ''Cache-Control'', js ''no-cache, no-store, must-revalidate''),
          (js ''X-Content-Type-Options'', js ''nosniff''),
          (js ''Access-Control-Allow-Origin'', js ''*'')]
         (Some [0, 1, 2]))"
proof -
  let ?req = "scenario_request (js ''1.2.3.4'') (js ''RklMRTEyMzoxLjIuMy40OjEwMDA'')"
  have ip: "userIP_of ?req = js ''1.2.3.4''"
    by (rule scenario_userIP) (simp add: js_def)
  have tok: "param_token ?req = js ''RklMRTEyMzoxLjIuMy40OjEwMDA''"
    by (simp add: scenario_request_def)
  have ver: "verifyTempToken (date_now (scenario_env 0)) (js ''RklMRTEyMzoxLjIuMy40OjEwMDA'')
               (js ''1.2.3.4'') = Some \<lparr>file_id = js ''FILE123'', expires_at = Finite 1000\<rparr>"
    by (simp add: verifyTempToken_def decode_1000 scenario_env_def)
  have "fst (stream_try (scenario_env 0) (js ''RklMRTEyMzoxLjIuMy40OjEwMDA'') (js ''1.2.3.4''))
     = Returns (Stream 200
         [(js ''Content-Type'', js ''video/mp4''),
          (js ''Content-Length'', js ''0''),
          (js ''Accept-Ranges'', js ''bytes''),
          (js ''Cache-Control'', js ''no-cache, no-store, must-revalidate''),
          (js ''X-Content-Type-Options'', js ''nosniff'')]
         (Some [0, 1, 2]))"
    unfolding stream_try_def ver
    by (simp add: scenario_env_def scenario_fetch_def scenario_upstream_def
          scenario_no_header_def relay_headers_def or_else_def resp_ok_def js_def)
  then have "fst (stream (scenario_env 0) ?req)
     = Returns (cors (Stream 200
         [(js ''Content-Type'', js ''video/mp4''),
          (js ''Content-Length'', js ''0''),
          (js ''Accept-Ranges'', js ''bytes''),
          (js ''Cache-Control'', js ''no-cache, no-store, must-revalidate''),
          (js ''X-Content-Type-Options'', js ''nosniff'')]
         (Some [0, 1, 2])))"
    by (simp only: stream_fst ip tok outcome.case)
  then show ?thesis
    by (simp add: headers_set_def js_def)
qed

text \<open>
  C7. When verification fails, for whatever token and caller, the stream handler
  answers 401 with the message \<^verbatim>\<open>Invalid or expired token\<close> and has called no
  collaborator: no upstream fetch, no other effect.
\<close>

theorem stream_unauthorized:
  assumes "verifyTempToken (date_now e) (param_token req) (userIP_of req) = None"
  shows "stream e req = (Returns (Json_error 401 (js ''Invalid or expired token'')), [])"
  using assms by (simp add: stream_def stream_handler_def stream_try_def)

theorem stream_unauthorized_witness:
  "verifyTempToken (date_now (scenario_env 1001))
       (param_token (scenario_request (js ''1.2.3.4'') (js ''RklMRTEyMzoxLjIuMy40OjEwMDA'')))
       (userIP_of (scenario_request (js ''1.2.3.4'') (js ''RklMRTEyMzoxLjIuMy40OjEwMDA''))) = None
   \<and> stream (scenario_env 1001)
         (scenario_request (js ''1.2.3.4'') (js ''RklMRTEyMzoxLjIuMy40OjEwMDA''))
       = (Returns (Json_error 401 (js ''Invalid or expired token'')), [])"
proof -
  have "verifyTempToken (date_now (scenario_env 1001))
       (param_token (scenario_request (js ''1.2.3.4'') (js ''RklMRTEyMzoxLjIuMy40OjEwMDA'')))
       (userIP_of (scenario_request (js ''1.2.3.4'') (js ''RklMRTEyMzoxLjIuMy40OjEwMDA''))) = None"
    by (simp add: scenario_env_def scenario_request_def verifyTempToken_def decode_1000)
  with stream_unauthorized [OF this] show ?thesis by simp
qed

text \<open>
  C8. The claim: the relayed response carries exactly the upstream's \<^verbatim>\<open>Content-Type\<close>,
  \<^verbatim>\<open>Content-Length\<close> when it is known, and the three fixed headers. The handler always
  sets both of the former, and the middleware adds a sixth: in the scenario the upstream
  sends neither \<^verbatim>\<open>Content-Type\<close> nor \<^verbatim>\<open>Content-Length\<close>, and the response carries
  \<^verbatim>\<open>Content-Type: video/mp4\<close>, \<^verbatim>\<open>Content-Length: 0\<close> and
  \<^verbatim>\<open>Access-Control-Allow-Origin: *\<close> besides the three.
\<close>

theorem relay_sets_defaults_when_upstream_silent:
  "resp_header scenario_upstream (js ''Content-Type'') = None
   \<and> resp_header scenario_upstream (js ''Content-Length'') = None
   \<and> fetch (scenario_env 0)
         (js ''https://api.telegram.org/file/bot123:SECRET/videos/file_7.mp4'')
       = Returns scenario_upstream
   \<and> fst (stream (scenario_env 0)
           (scenario_request (js ''1.2.3.4'') (js ''RklMRTEyMzoxLjIuMy40OjEwMDA'')))
       = Returns (Stream 200
           [(js ''Content-Type'', js ''video/mp4''),
          (js ''Content-Length'', js ''0''),
          (js ''Accept-Ranges'', js ''bytes''),
          (js ''Cache-Control'', js ''no-cache, no-store, must-revalidate''),
          (js ''X-Content-Type-Options'', js ''nosniff''),
          (js ''Access-Control-Allow-Origin'', js ''*'')]
           (Some [0, 1, 2]))"
  by (simp add: scenario_stream)
     (simp add: scenario_upstream_def scenario_no_header_def scenario_env_def scenario_fetch_def)

text \<open>
  C8, amended. On every successful relay the token of the request verifies, the
  upstream resolves its file id to a path, the file is downloaded from
  \<^verbatim>\<open>https://api.telegram.org/file/bot<credential>/<path>\<close>, and the response carries the
  status and the body of that download and exactly six headers: \<^verbatim>\<open>Content-Type\<close>, the
  download's value or \<^verbatim>\<open>video/mp4\<close> when it has none or an empty one; \<^verbatim>\<open>Content-Length\<close>,
  the download's value or \<^verbatim>\<open>0\<close> when it has none or an empty one;
  \<^verbatim>\<open>Accept-Ranges: bytes\<close>; \<^verbatim>\<open>Cache-Control: no-cache, no-store, must-revalidate\<close>;
  \<^verbatim>\<open>X-Content-Type-Options: nosniff\<close>; and \<^verbatim>\<open>Access-Control-Allow-Origin: *\<close>, set by
  the CORS middleware of the \<^verbatim>\<open>/api/\<close> routes.
\<close>

theorem relay_headers_exact:
  assumes "fst (stream e req) = Returns (Stream status headers body)"
  shows "\<exists>tokenData botToken fileResponse fileData res videoResponse.
           verifyTempToken (date_now e) (param_token req) (userIP_of req) = Some tokenData
           \<and> TELEGRAM_BOT_TOKEN e = Some botToken
           \<and> fetch e (js ''https://api.telegram.org/bot'' @ botToken
                         @ js ''/getFile?file_id='' @ file_id tokenData) = Returns fileResponse
           \<and> resp_json fileResponse = Returns fileData
           \<and> result fileData = Some res
           \<and> fetch e (js ''https://api.telegram.org/file/bot'' @ botToken
                         @ js ''/'' @ file_path res) = Returns videoResponse
           \<and> status = resp_status videoResponse \<and> body = resp_body videoResponse
           \<and> headers =
               [(js ''Content-Type'',
                   (case resp_header videoResponse (js ''Content-Type'') of
                      None \<Rightarrow> js ''video/mp4''
                    | Some v \<Rightarrow> if v = [] then js ''video/mp4'' else v)),
                (js ''Content-Length'',
                   (case resp_header videoResponse (js ''Content-Length'') of
                      None \<Rightarrow> js ''0''
                    | Some v \<Rightarrow> if v = [] then js ''0'' else v)),
                (js ''Accept-Ranges'', js ''bytes''),
                (js ''Cache-Control'', js ''no-cache, no-store, must-revalidate''),
                (js ''X-Content-Type-Options'', js ''nosniff''),
                (js ''Access-Control-Allow-Origin'', js ''*'')]"
proof -
  from stream_success [OF assms] obtain hs where
    t: "stream_try e (param_token req) (userIP_of req)
          = (Returns (Stream status hs body), snd (stream e req))"
    and h: "headers = headers_set (js ''Access-Control-Allow-Origin'') (js ''*'') hs"
    by blast
  from stream_try_success [OF t] obtain tokenData botToken fileResponse fileData
    and res :: file_result and videoResponse where
    facts: "verifyTempToken (date_now e) (param_token req) (userIP_of req) = Some tokenData"
      "TELEGRAM_BOT_TOKEN e = Some botToken"
      "fetch e (js ''https://api.telegram.org/bot'' @ botToken
                  @ js ''/getFile?file_id='' @ file_id tokenData) = Returns fileResponse"
      "resp_json fileResponse = Returns fileData"
      "result fileData = Some res"
      "fetch e (js ''https://api.telegram.org/file/bot'' @ botToken
                  @ js ''/'' @ file_path res) = Returns videoResponse"
      "status = resp_status videoResponse" "body = resp_body videoResponse"
    and hs: "hs = relay_headers videoResponse"
    by blast
  have "headers =
               [(js ''Content-Type'',
                   (case resp_header videoResponse (js ''Content-Type'') of
                      None \<Rightarrow> js ''video/mp4''
                    | Some v \<Rightarrow> if v = [] then js ''video/mp4'' else v)),
                (js ''Content-Length'',
                   (case resp_header videoResponse (js ''Content-Length'') of
                      None \<Rightarrow> js ''0''
                    | Some v \<Rightarrow> if v = [] then js ''0'' else v)),
                (js ''Accept-Ranges'', js ''bytes''),
                (js ''Cache-Control'', js ''no-cache, no-store, must-revalidate''),
                (js ''X-Content-Type-Options'', js ''nosniff''),
                (js ''Access-Control-Allow-Origin'', js ''*'')]"
    unfolding h hs cors_relay_headers by (simp add: relay_headers_def or_else_def)
  with facts show ?thesis by blast
qed

theorem relay_headers_exact_witness:
  "fst (stream (scenario_env 0)
         (scenario_request (js ''1.2.3.4'') (js ''RklMRTEyMzoxLjIuMy40OjEwMDA'')))
     = Returns (Stream 200
         [(js ''Content-Type'', js ''video/mp4''),
          (js ''Content-Length'', js ''0''),
          (js ''Accept-Ranges'', js ''bytes''),
          (js ''Cache-Control'', js ''no-cache, no-store, must-revalidate''),
          (js ''X-Content-Type-Options'', js ''nosniff''),
          (js ''Access-Control-Allow-Origin'', js ''*'')]
         (Some [0, 1, 2]))
   \<and> (\<exists>tokenData botToken fileResponse fileData res videoResponse.
           verifyTempToken (date_now (scenario_env 0))
               (param_token (scenario_request (js ''1.2.3.4'') (js ''RklMRTEyMzoxLjIuMy40OjEwMDA'')))
               (userIP_of (scenario_request (js ''1.2.3.4'') (js ''RklMRTEyMzoxLjIuMy40OjEwMDA'')))
             = Some tokenData
           \<and> TELEGRAM_BOT_TOKEN (scenario_env 0) = Some botToken
           \<and> fetch (scenario_env 0) (js ''https://api.telegram.org/bot'' @ botToken
                         @ js ''/getFile?file_id='' @ file_id tokenData) = Returns fileResponse
           \<and> resp_json fileResponse = Returns fileData
           \<and> result fileData = Some res
           \<and> fetch (scenario_env 0) (js ''https://api.telegram.org/file/bot'' @ botToken
                         @ js ''/'' @ file_path res) = Returns videoResponse
           \<and> 200 = resp_status videoResponse \<and> Some [0, 1, 2] = resp_body videoResponse
           \<and> [(js ''Content-Type'', js ''video/mp4''),
          (js ''Content-Length'', js ''0''),
          (js ''Accept-Ranges'', js ''bytes''),
          (js ''Cache-Control'', js ''no-cache, no-store, must-revalidate''),
          (js ''X-Content-Type-Options'', js ''nosniff''),
          (js ''Access-Control-Allow-Origin'', js ''*'')] =
               [(js ''Content-Type'',
                   (case resp_header videoResponse (js ''Content-Type'') of
                      None \<Rightarrow> js ''video/mp4''
                    | Some v \<Rightarrow> if v = [] then js ''video/mp4'' else v)),
                (js ''Content-Length'',
                   (case resp_header videoResponse (js ''Content-Length'') of
                      None \<Rightarrow> js ''0''
                    | Some v \<Rightarrow> if v = [] then js ''0'' else v)),
                (js ''Accept-Ranges'', js ''bytes''),
                (js ''Cache-Control'', js ''no-cache, no-store, must-revalidate''),
                (js ''X-Content-Type-Options'', js ''nosniff''),
                (js ''Access-Control-Allow-Origin'', js ''*'')])"
  using relay_headers_exact [OF scenario_stream] scenario_stream by blast

end
